theory Spec2Isabelle
  imports Main "HOL-Library.Sublist"
begin

section \<open>Python strings\<close>

text \<open>
  A Python \<open>str\<close> is modelled as a \<open>string\<close>; a \<open>char\<close> stands for a code point
  below 256. \<open>str.find\<close> returns the index of the first occurrence or \<open>-1\<close>; the
  model returns \<open>Some\<close> index or \<open>None\<close>.
\<close>

fun str_find :: "string \<Rightarrow> string \<Rightarrow> nat option" where
  "str_find sub [] = (if sub = [] then Some 0 else None)"
| "str_find sub (c # cs) =
     (if prefix sub (c # cs) then Some 0 else map_option Suc (str_find sub cs))"

text \<open>\<open>text.find(sub, start)\<close> for \<open>start \<le> len(text)\<close>.\<close>

definition str_find_from :: "string \<Rightarrow> string \<Rightarrow> nat \<Rightarrow> nat option" where
  "str_find_from sub text start = map_option (\<lambda>i. i + start) (str_find sub (drop start text))"

text \<open>\<open>sub in text\<close>.\<close>

definition contains :: "string \<Rightarrow> string \<Rightarrow> bool" where
  "contains sub text = (str_find sub text \<noteq> None)"

text \<open>
  \<open>str.isspace\<close> on the code points below 256: tab, line feed, vertical tab, form
  feed, carriage return, the separators 0x1C to 0x1F, space, 0x85 and 0xA0.
\<close>

definition is_space :: "char \<Rightarrow> bool" where
  "is_space c = (let n = of_char c :: nat in
     (9 \<le> n \<and> n \<le> 13) \<or> (28 \<le> n \<and> n \<le> 32) \<or> n = 133 \<or> n = 160)"

definition lstrip :: "string \<Rightarrow> string" where
  "lstrip s = dropWhile is_space s"

definition rstrip :: "string \<Rightarrow> string" where
  "rstrip s = rev (dropWhile is_space (rev s))"

definition strip :: "string \<Rightarrow> string" where
  "strip s = rstrip (lstrip s)"

text \<open>\<open>s.split('\n')[0]\<close>: the text before the first line feed.\<close>

definition first_line :: "string \<Rightarrow> string" where
  "first_line s = takeWhile (\<lambda>c. c \<noteq> CHR 0x0A) s"

text \<open>
  \<open>str.lower\<close> on the code points below 256: the ASCII capitals and the Latin-1
  capitals 0xC0 to 0xDE (0xD7, the multiplication sign, apart) move up by 32.
\<close>

definition lower_char :: "char \<Rightarrow> char" where
  "lower_char c = (let n = of_char c :: nat in
     if (65 \<le> n \<and> n \<le> 90) \<or> (192 \<le> n \<and> n \<le> 222 \<and> n \<noteq> 215)
     then char_of (n + 32) else c)"

definition lower :: "string \<Rightarrow> string" where
  "lower s = map lower_char s"

text \<open>\<open>str\<close> of an integer.\<close>

fun digits_of :: "nat \<Rightarrow> string" where
  "digits_of n =
     (if n < 10 then [char_of (48 + n)]
      else digits_of (n div 10) @ [char_of (48 + n mod 10)])"

declare digits_of.simps [simp del]

definition str_int :: "int \<Rightarrow> string" where
  "str_int i = (if i < 0 then ''-'' @ digits_of (nat (- i)) else digits_of (nat i))"

section \<open>Termination policy\<close>

text \<open>
  A history entry is a Python dict from key to text. \<open>step_get s k d\<close> is
  \<open>s.get(k, d)\<close>; \<open>py_str_opt (s k)\<close> is \<open>str(s.get(k))\<close>, which prints a missing
  key as \<open>None\<close>.
\<close>

type_synonym step = "string \<rightharpoonup> string"

definition step_get :: "step \<Rightarrow> string \<Rightarrow> string \<Rightarrow> string" where
  "step_get s k d = (case s k of None \<Rightarrow> d | Some v \<Rightarrow> v)"

definition py_str_opt :: "string option \<Rightarrow> string" where
  "py_str_opt v = (case v of None \<Rightarrow> ''None'' | Some s \<Rightarrow> s)"

definition complete_answer_patterns :: "step \<Rightarrow> bool list" where
  "complete_answer_patterns last_step =
     (let last_observation = step_get last_step ''observation'' '''' in
      [contains ''Date calculation:'' last_observation \<and> contains ''will be a'' last_observation,
       contains ''Date calculation:'' last_observation \<and> contains ''was a'' last_observation,
       contains ''Days until'' last_observation \<or> contains ''Days since'' last_observation,
       contains ''Result:'' last_observation \<and> last_step ''tool'' = Some ''calculator'',
       contains ''Current date and time:'' last_observation])"

text \<open>\<open>steps[-3:]\<close>.\<close>

definition last3 :: "'a list \<Rightarrow> 'a list" where
  "last3 xs = drop (length xs - 3) xs"

definition should_force_final_answer :: "step list \<Rightarrow> bool \<times> string" where
  "should_force_final_answer steps =
     (if steps = [] then (False, '''')
      else if 1 \<le> length steps \<and> list_ex id (complete_answer_patterns (last steps))
        then (True, ''complete_answer'')
      else if 3 \<le> length steps
           \<and> card (set (map (\<lambda>s. s ''tool'') (last3 steps))) = 1
           \<and> card (set (map (\<lambda>s. py_str_opt (s ''tool_input'')) (last3 steps))) = 1
        then (True, ''loop_detected'')
      else if 10 \<le> length steps then (True, ''max_steps'')
      else (False, ''''))"

text \<open>
  The two conditions the claims speak of. \<open>last_three_identical\<close>: there are at least
  three entries and the last three agree on the tool name and on the serialized input.
  \<open>last_is_complete\<close>: the newest observation matches a complete-answer pattern.
\<close>

definition last_three_identical :: "step list \<Rightarrow> bool" where
  "last_three_identical steps =
     (case rev steps of
        c # b # a # _ \<Rightarrow>
          a ''tool'' = b ''tool'' \<and> b ''tool'' = c ''tool''
          \<and> py_str_opt (a ''tool_input'') = py_str_opt (b ''tool_input'')
          \<and> py_str_opt (b ''tool_input'') = py_str_opt (c ''tool_input'')
      | _ \<Rightarrow> False)"

definition last_is_complete :: "step list \<Rightarrow> bool" where
  "last_is_complete steps = (steps \<noteq> [] \<and> list_ex id (complete_answer_patterns (last steps)))"

text \<open>A history entry as the tool node writes it.\<close>

definition mk_step :: "string \<Rightarrow> string \<Rightarrow> string \<Rightarrow> string \<Rightarrow> step" where
  "mk_step th tname inp obs =
     [''thought'' \<mapsto> th, ''tool'' \<mapsto> tname, ''tool_input'' \<mapsto> inp, ''observation'' \<mapsto> obs]"

section \<open>Calculator tool\<close>

text \<open>
  \<open>CalculatorTool.execute\<close>. Python's builtin evaluator is outside the repository: it
  is the parameter \<open>ev\<close>, which for an expression either raises (\<open>Inl\<close> the
  message of the exception) or yields the printed value (\<open>Inr\<close>).
\<close>

definition bad_tokens :: "string list" where
  "bad_tokens = [''import'', ''exec'', ''eval'', ''__'']"

definition CalculatorTool_execute :: "(string \<Rightarrow> string + string) \<Rightarrow> string \<Rightarrow> string" where
  "CalculatorTool_execute ev expression =
     (if list_ex (\<lambda>bad. contains bad (lower expression)) bad_tokens
      then ''Error: Invalid expression''
      else (case ev expression of
              Inl e \<Rightarrow> ''Error: Could not calculate. '' @ e
            | Inr result \<Rightarrow> ''Result: '' @ result))"

section \<open>Session state\<close>

text \<open>
  The session state is a Python dict. A key can be missing, hold \<open>None\<close>, or hold a
  value; \<open>dict.get\<close> tells the three apart, so the model does too.
\<close>

datatype 'a field = Absent | PyNone | Val 'a

text \<open>\<open>d.get(k)\<close> and \<open>d.get(k, default)\<close>; \<open>None\<close> is Python's \<open>None\<close>.\<close>

definition py_get :: "'a field \<Rightarrow> 'a option" where
  "py_get f = (case f of Val v \<Rightarrow> Some v | _ \<Rightarrow> None)"

definition py_get_default :: "'a field \<Rightarrow> 'a \<Rightarrow> 'a option" where
  "py_get_default f d = (case f of Absent \<Rightarrow> Some d | PyNone \<Rightarrow> None | Val v \<Rightarrow> Some v)"

text \<open>Truth value of \<open>d.get(k)\<close> for a text and for a list.\<close>

definition truthy :: "'a list field \<Rightarrow> bool" where
  "truthy f = (case f of Val v \<Rightarrow> v \<noteq> [] | _ \<Rightarrow> False)"

text \<open>
  The keyword arguments of a tool call. The two input parsers are the only writers of
  \<open>tool_input\<close>, and they build exactly these dicts: the empty one, or one key with a
  text (\<open>expression\<close>, \<open>format\<close>, \<open>query\<close>, \<open>target_date\<close>) or an integer (\<open>days\<close>).
\<close>

datatype tool_input =
    NoArgs
  | Expression string
  | Format string
  | Query string
  | Days int
  | TargetDate string

record channels =
  thought :: "string field"
  tool_name :: "string field"
  tool_input :: "tool_input field"
  observation :: "string field"
  final_answer :: "string field"
  steps :: "step list field"
  error :: "string field"

record agent_state = channels +
  question :: string

text \<open>A node returns a dict of the keys it writes; the other keys stay as they are.\<close>

definition no_update :: channels where
  "no_update = \<lparr>thought = Absent, tool_name = Absent, tool_input = Absent,
     observation = Absent, final_answer = Absent, steps = Absent, error = Absent\<rparr>"

definition merge_field :: "'a field \<Rightarrow> 'a field \<Rightarrow> 'a field" where
  "merge_field old new = (case new of Absent \<Rightarrow> old | _ \<Rightarrow> new)"

definition apply_update :: "agent_state \<Rightarrow> channels \<Rightarrow> agent_state" where
  "apply_update st u =
     st\<lparr>thought := merge_field (thought st) (thought u),
        tool_name := merge_field (tool_name st) (tool_name u),
        tool_input := merge_field (tool_input st) (tool_input u),
        observation := merge_field (observation st) (observation u),
        final_answer := merge_field (final_answer st) (final_answer u),
        steps := merge_field (steps st) (steps u),
        error := merge_field (error st) (error u)\<rparr>"

section \<open>Action parser\<close>

definition extract_between :: "string \<Rightarrow> string \<Rightarrow> string option \<Rightarrow> string" where
  "extract_between body start_marker end_marker =
     (case str_find start_marker body of
        None \<Rightarrow> []
      | Some i \<Rightarrow>
          (let start = i + length start_marker;
               end_pos = (case end_marker of
                            None \<Rightarrow> length body
                          | Some em \<Rightarrow>
                              if em = [] then length body
                              else (case str_find_from em body start of
                                      None \<Rightarrow> length body
                                    | Some e \<Rightarrow> e))
           in strip (take (end_pos - start) (drop start body))))"

definition is_quote :: "char \<Rightarrow> bool" where
  "is_quote c = (c = CHR 0x27 \<or> c = CHR 0x22)"

definition clean_input_text :: "string \<Rightarrow> string" where
  "clean_input_text input_text =
     strip (if (prefix [CHR 0x27] input_text \<and> suffix [CHR 0x27] input_text)
               \<or> (prefix [CHR 0x22] input_text \<and> suffix [CHR 0x22] input_text)
            then take (length input_text - 1 - 1) (drop 1 input_text)
            else input_text)"

text \<open>
  The pattern \<open>\{['"]KEY['"]:\s*['"](.+?)['"]\}\<close> of \<open>parse_tool_input\<close>.
  \<open>lazy_group acc rest\<close> is the lazy group \<open>(.+?)\<close> with \<open>acc\<close> already taken: it
  stops at the first place where a quote and a closing brace follow, and a line feed
  ends the attempt, since the dot does not match one. \<open>match_dict_at\<close> matches the
  pattern at the head of the text; \<open>search_dict\<close> is \<open>re.search\<close>, giving group 1 of
  the leftmost match.
\<close>

fun lazy_group :: "string \<Rightarrow> string \<Rightarrow> string option" where
  "lazy_group acc [] = None"
| "lazy_group acc (c # cs) =
     (if is_quote c \<and> prefix ''}'' cs then Some acc
      else if c = CHR 0x0A then None
      else lazy_group (acc @ [c]) cs)"

definition match_dict_at :: "string \<Rightarrow> string \<Rightarrow> string option" where
  "match_dict_at key s =
     (case s of
        b # q1 # r1 \<Rightarrow>
          if b = CHR ''{'' \<and> is_quote q1 \<and> prefix key r1 then
            (case drop (length key) r1 of
               q2 # colon # r2 \<Rightarrow>
                 if is_quote q2 \<and> colon = CHR '':'' then
                   (case dropWhile is_space r2 of
                      q3 # c0 # r3 \<Rightarrow>
                        if is_quote q3 \<and> c0 \<noteq> CHR 0x0A then lazy_group [c0] r3 else None
                    | _ \<Rightarrow> None)
                 else None
             | _ \<Rightarrow> None)
          else None
      | _ \<Rightarrow> None)"

fun search_dict :: "string \<Rightarrow> string \<Rightarrow> string option" where
  "search_dict key [] = None"
| "search_dict key (c # cs) =
     (case match_dict_at key (c # cs) of
        Some g \<Rightarrow> Some g
      | None \<Rightarrow> search_dict key cs)"

text \<open>
  \<open>re.match(r'^-?\d+$', s)\<close>: an optional minus sign and one or more digits, up to
  the end of the text or to a final line feed. \<open>py_int\<close> is \<open>int(s)\<close> on such a
  text: under its default limit the interpreter refuses a text of more than 4300 digits
  with a \<open>ValueError\<close>, whose message is \<open>int_limit_text\<close> of the number of digits;
  \<open>Inl\<close> carries the message of the exception.
\<close>

definition is_digit :: "char \<Rightarrow> bool" where
  "is_digit c = (let n = of_char c :: nat in 48 \<le> n \<and> n \<le> 57)"

definition is_int_literal :: "string \<Rightarrow> bool" where
  "is_int_literal s =
     (let body = (if suffix [CHR 0x0A] s then butlast s else s);
          ds = (if prefix ''-'' body then drop 1 body else body)
      in ds \<noteq> [] \<and> list_all is_digit ds)"

definition digits_value :: "string \<Rightarrow> nat" where
  "digits_value ds = foldl (\<lambda>acc c. 10 * acc + (of_char c - 48)) 0 ds"

definition int_limit_text :: "nat \<Rightarrow> string" where
  "int_limit_text n =
     ''Exceeds the limit (4300 digits) for integer string conversion: value has ''
     @ str_int (int n) @ '' digits; use sys.set_int_max_str_digits() to increase the limit''"

definition py_int :: "string \<Rightarrow> string + int" where
  "py_int s =
     (let body = (if suffix [CHR 0x0A] s then butlast s else s);
          ds = (if prefix ''-'' body then drop 1 body else body)
      in if 4300 < length ds then Inl (int_limit_text (length ds))
         else if prefix ''-'' body then Inr (- int (digits_value ds))
         else Inr (int (digits_value ds)))"

definition parse_tool_input :: "string \<Rightarrow> string \<Rightarrow> string + tool_input" where
  "parse_tool_input tname raw_input =
     (let input_text = clean_input_text raw_input in
      if tname = ''calculator'' then Inr (Expression input_text)
      else if tname = ''datetime'' then
        (if input_text \<noteq> [] \<and> lower input_text \<noteq> ''none'' then Inr (Format input_text)
         else Inr NoArgs)
      else if tname = ''web_search'' then
        (case search_dict ''query'' input_text of
           Some g \<Rightarrow> Inr (Query g)
         | None \<Rightarrow> Inr (Query input_text))
      else if tname = ''datecalculator'' then
        (let input_text2 = (case search_dict ''target_date'' input_text of
                              Some g \<Rightarrow> g
                            | None \<Rightarrow> input_text)
         in if is_int_literal input_text2 then
              (case py_int input_text2 of
                 Inl e \<Rightarrow> Inl e
               | Inr n \<Rightarrow> Inr (Days n))
            else Inr (TargetDate input_text2))
      else Inr NoArgs)"

text \<open>\<open>re.findall(r'\d+', question)\<close>: only the first run of digits is used.\<close>

definition first_number :: "string \<Rightarrow> string" where
  "first_number q = takeWhile is_digit (dropWhile (\<lambda>c. \<not> is_digit c) q)"

definition parse_tool_input_from_question :: "string \<Rightarrow> string \<Rightarrow> string + tool_input" where
  "parse_tool_input_from_question tname q =
     (if tname = ''datecalculator'' then
        (if contains ''until'' (lower q) \<or> contains ''days to'' (lower q) then Inr NoArgs
         else if first_number q \<noteq> [] then
           (case py_int (first_number q) of
              Inl e \<Rightarrow> Inl e
            | Inr n \<Rightarrow> Inr (Days n))
         else Inr (Days 0))
      else Inr NoArgs)"

text \<open>
  The bounds of the \<open>INPUT:\<close> section: it starts after the first \<open>INPUT:\<close> and ends
  at the nearest of the three markers found from there on, or at the end of the text.
\<close>

definition input_section :: "string \<Rightarrow> string" where
  "input_section reasoning_text =
     (case str_find ''INPUT:'' reasoning_text of
        None \<Rightarrow> []
      | Some i \<Rightarrow>
          (let input_start = i + 6;
               input_end = foldl
                 (\<lambda>e marker. case str_find_from marker reasoning_text input_start of
                                 None \<Rightarrow> e
                               | Some p \<Rightarrow> if p < e then p else e)
                 (length reasoning_text)
                 [''THOUGHT:'', ''FINAL ANSWER:'', ''TOOL:'']
           in strip (take (input_end - input_start) (drop input_start reasoning_text))))"

text \<open>
  The part of \<open>reasoning_node\<close> after the model has answered: from the question and
  the model's reply to the dict of updates, or to the message of the \<open>ValueError\<close> that
  the integer conversion of a tool input raises.
\<close>

definition parse_reasoning :: "string \<Rightarrow> string \<Rightarrow> string + channels" where
  "parse_reasoning q reasoning_text =
     (let updates = no_update\<lparr>thought := Val [], tool_name := PyNone,
                                tool_input := PyNone, final_answer := PyNone\<rparr>;
          th = extract_between reasoning_text ''THOUGHT:'' None;
          updates = (if th \<noteq> [] then updates\<lparr>thought := Val th\<rparr> else updates)
      in if (case str_find ''TOOL:'' reasoning_text of
               None \<Rightarrow> False
             | Some i \<Rightarrow> \<not> contains ''FINAL ANSWER:'' (take i reasoning_text))
         then
           (let tn0 = extract_between reasoning_text ''TOOL:'' None;
                tn = (if tn0 \<noteq> [] \<and> CHR 0x0A \<in> set tn0 then strip (first_line tn0) else tn0)
            in if tn \<noteq> [] then
                 (case (if contains ''INPUT:'' reasoning_text
                        then parse_tool_input tn (input_section reasoning_text)
                        else parse_tool_input_from_question tn q) of
                    Inl e \<Rightarrow> Inl e
                  | Inr args \<Rightarrow> Inr (updates\<lparr>tool_name := Val tn, tool_input := Val args\<rparr>))
               else Inr updates)
         else if contains ''FINAL ANSWER:'' reasoning_text then
           (let answer = extract_between reasoning_text ''FINAL ANSWER:'' None
            in if answer \<noteq> [] then Inr (updates\<lparr>final_answer := Val answer\<rparr>)
               else Inr updates)
         else Inr updates)"

text \<open>
  The condition of the precedence rule in the claims' words: the marker \<open>TOOL:\<close>
  occurs, and no \<open>FINAL ANSWER:\<close> occurs in the text before its first occurrence.
\<close>

definition tool_marker_first :: "string \<Rightarrow> bool" where
  "tool_marker_first t =
     (case str_find ''TOOL:'' t of
        None \<Rightarrow> False
      | Some i \<Rightarrow> \<not> contains ''FINAL ANSWER:'' (take i t))"

section \<open>The world outside the repository\<close>

text \<open>
  A \<open>datetime\<close> value: the day as a proleptic Gregorian ordinal, the time of day in
  microseconds, and the UTC offset in minutes of an aware value (\<open>None\<close> for a naive
  one). A top search result is a JSON object whose three keys may be missing.
\<close>

record datetime =
  ordinal :: int
  micros :: int
  tzinfo :: "int option"

record search_item =
  item_title :: "string option"
  item_link :: "string option"
  item_snippet :: "string option"

text \<open>
  What is raised: \<open>Exc m\<close> is an instance of \<open>Exception\<close> whose \<open>str\<close> is \<open>m\<close>;
  \<open>BaseExc m\<close> is an exception outside \<open>Exception\<close>, such as \<open>KeyboardInterrupt\<close> or
  \<open>SystemExit\<close>, which no \<open>except Exception\<close> clause catches.
\<close>

datatype exn = Exc string | BaseExc string

text \<open>
  Everything the code asks of its libraries and of the network at one moment. A call
  that can raise gives \<open>Inl\<close>: what is raised, for the model call, and the message of an
  instance of \<open>Exception\<close> for the others.
  \<^item> \<open>anthropic_api_key\<close>, \<open>google_api_key\<close>, \<open>google_search_engine_id\<close>: the environment
    variables read by the two clients.
  \<^item> \<open>llm_reply\<close>: what \<open>generate_reasoning\<close> returns or raises for the prompt of this
    turn.
  \<^item> \<open>py_eval\<close>: the builtin evaluator under the calculator's restricted names.
  \<^item> \<open>now\<close>: \<open>datetime.now()\<close>, a naive value; \<open>year_of\<close>: its \<open>year\<close> attribute.
  \<^item> \<open>parse_date\<close>: \<open>dateutil.parser.parse\<close>.
  \<^item> \<open>strftime\<close>: formatting with one of the format literals of the source;
    \<open>strftime_checked\<close>: formatting with a format given by the caller, which can raise.
  \<^item> \<open>timedelta_error\<close>: the text of the error raised for a day count that is too large.
  \<^item> \<open>search_api\<close>: the search request for a query at a given attempt: the request, its
    status check and the decoding of the reply can raise; otherwise the list under
    \<open>items\<close> (empty when the key is missing).
  \<^item> \<open>visible_text\<close>: the page fetch for a URL at a given attempt, up to \<open>soup.get_text()\<close>.
  \<^item> \<open>py_str\<close>: \<open>str\<close> of a \<open>tool_input\<close> dict.
  \<^item> \<open>kwargs_error\<close>: the text of the \<open>TypeError\<close> raised by \<open>tool.execute(**tool_input)\<close>
    for the tool of that name when \<open>tool_input\<close> is \<open>None\<close> or when the keyword arguments
    do not fit the signature of \<open>execute\<close>.
  \<^item> \<open>tool_interrupt\<close>: an exception outside \<open>Exception\<close> that reaches the process while
    the tool of this moment is running, if any.
  \<^item> \<open>recursion_note\<close>: what the graph library of the day appends to the two sentences
    of its recursion error (a troubleshooting line, or nothing).
\<close>

record env =
  anthropic_api_key :: "string option"
  google_api_key :: "string option"
  google_search_engine_id :: "string option"
  llm_reply :: "exn + string"
  py_eval :: "string \<Rightarrow> string + string"
  now :: datetime
  year_of :: "datetime \<Rightarrow> int"
  parse_date :: "string \<Rightarrow> string + datetime"
  strftime :: "string \<Rightarrow> datetime \<Rightarrow> string"
  strftime_checked :: "string \<Rightarrow> datetime \<Rightarrow> string + string"
  timedelta_error :: "int \<Rightarrow> string"
  search_api :: "string \<Rightarrow> nat \<Rightarrow> string + search_item list"
  visible_text :: "string \<Rightarrow> nat \<Rightarrow> string + string"
  py_str :: "tool_input \<Rightarrow> string"
  kwargs_error :: "string \<Rightarrow> tool_input option \<Rightarrow> string"
  tool_interrupt :: "string option"
  recursion_note :: string

section \<open>Date tools\<close>

text \<open>\<open>dt.replace(hour=0, minute=0, second=0, microsecond=0)\<close>.\<close>

definition midnight :: "datetime \<Rightarrow> datetime" where
  "midnight dt = dt\<lparr>micros := 0\<rparr>"

text \<open>
  \<open>(a - b).days\<close>. Subtracting a naive value from an aware one, or the reverse, raises
  \<open>TypeError\<close>; otherwise the difference is a \<open>timedelta\<close> whose \<open>days\<close> is the floor of
  the difference in days, the offsets of two aware values taken into account.
\<close>

definition delta_days :: "datetime \<Rightarrow> datetime \<Rightarrow> string + int" where
  "delta_days a b =
     (case (tzinfo a, tzinfo b) of
        (None, None) \<Rightarrow>
          Inr (((ordinal a - ordinal b) * 86400000000 + (micros a - micros b)) div 86400000000)
      | (Some oa, Some ob) \<Rightarrow>
          Inr (((ordinal a - ordinal b) * 86400000000 + (micros a - micros b)
                - (oa - ob) * 60000000) div 86400000000)
      | _ \<Rightarrow> Inl ''can't subtract offset-naive and offset-aware datetimes'')"

definition parse_error_text :: "string \<Rightarrow> string \<Rightarrow> string" where
  "parse_error_text target_date e =
     ''Error parsing date '' @ [CHR 0x27] @ target_date @ [CHR 0x27]
     @ ''. Please use formats like 'November 27, 2025' or '2025-11-27'. Error: '' @ e"

definition DateCalculatorTool_execute :: "env \<Rightarrow> int option \<Rightarrow> string option \<Rightarrow> string" where
  "DateCalculatorTool_execute w days target_date =
     (let today = midnight (now w) in
      case target_date of
        Some td \<Rightarrow>
          (case parse_date w td of
             Inl e \<Rightarrow> parse_error_text td e
           | Inr parsed \<Rightarrow>
               (let target = midnight parsed in
                case delta_days target today of
                  Inl e \<Rightarrow> parse_error_text td e
                | Inr days_diff \<Rightarrow>
                    if days_diff = 0 then
                      ''The target date '' @ strftime w ''%B %d, %Y'' target @ '' is today!''
                    else if days_diff > 0 then
                      ''Days until '' @ strftime w ''%B %d, %Y'' target @ '':\<newline>''
                      @ ''- Today: '' @ strftime w ''%A, %B %d, %Y'' today @ ''\<newline>''
                      @ ''- Target: '' @ strftime w ''%A, %B %d, %Y'' target @ ''\<newline>''
                      @ ''- Days until: '' @ str_int days_diff @ '' days''
                    else
                      ''Days since '' @ strftime w ''%B %d, %Y'' target @ '':\<newline>''
                      @ ''- Today: '' @ strftime w ''%A, %B %d, %Y'' today @ ''\<newline>''
                      @ ''- Target: '' @ strftime w ''%A, %B %d, %Y'' target @ ''\<newline>''
                      @ ''- Days since: '' @ str_int (abs days_diff) @ '' days ago''))
      | None \<Rightarrow>
          (case days of
             Some d \<Rightarrow>
               if 999999999 < abs d then ''Error calculating date: '' @ timedelta_error w d
               else if ordinal today + d < 1 \<or> 3652059 < ordinal today + d then
                 ''Error calculating date: date value out of range''
               else
                 (let target = today\<lparr>ordinal := ordinal today + d\<rparr> in
                  if d = 0 then ''Today is '' @ strftime w ''%A, %B %d, %Y'' today
                  else if d > 0 then
                    ''Date calculation:\<newline>''
                    @ ''- Today: '' @ strftime w ''%A, %B %d, %Y'' today @ ''\<newline>''
                    @ ''- '' @ str_int d @ '' days from today: ''
                    @ strftime w ''%A, %B %d, %Y'' target @ ''\<newline>''
                    @ ''- That will be a '' @ strftime w ''%A'' target
                  else
                    ''Date calculation:\<newline>''
                    @ ''- Today: '' @ strftime w ''%A, %B %d, %Y'' today @ ''\<newline>''
                    @ ''- '' @ str_int (abs d) @ '' days ago: ''
                    @ strftime w ''%A, %B %d, %Y'' target @ ''\<newline>''
                    @ ''- That was a '' @ strftime w ''%A'' target)
           | None \<Rightarrow> ''Today is '' @ strftime w ''%A, %B %d, %Y'' today))"

definition DateTimeTool_execute :: "env \<Rightarrow> string option \<Rightarrow> string" where
  "DateTimeTool_execute w fmt =
     (case fmt of
        Some f \<Rightarrow>
          if f \<noteq> [] then
            (case strftime_checked w f (now w) of
               Inr s \<Rightarrow> s
             | Inl e \<Rightarrow>
                 ''Error: Invalid format string '' @ [CHR 0x27] @ f @ [CHR 0x27] @ ''. '' @ e)
          else
            ''Current date and time:\<newline>''
            @ ''- Date: '' @ strftime w ''%Y-%m-%d'' (now w) @ ''\<newline>''
            @ ''- Time: '' @ strftime w ''%H:%M:%S'' (now w) @ ''\<newline>''
            @ ''- Day: '' @ strftime w ''%A'' (now w) @ ''\<newline>''
            @ ''- Month: '' @ strftime w ''%B'' (now w) @ ''\<newline>''
            @ ''- Year: '' @ str_int (year_of w (now w)) @ ''\<newline>''
            @ ''- Timezone: Local system time''
      | None \<Rightarrow>
            ''Current date and time:\<newline>''
            @ ''- Date: '' @ strftime w ''%Y-%m-%d'' (now w) @ ''\<newline>''
            @ ''- Time: '' @ strftime w ''%H:%M:%S'' (now w) @ ''\<newline>''
            @ ''- Day: '' @ strftime w ''%A'' (now w) @ ''\<newline>''
            @ ''- Month: '' @ strftime w ''%B'' (now w) @ ''\<newline>''
            @ ''- Year: '' @ str_int (year_of w (now w)) @ ''\<newline>''
            @ ''- Timezone: Local system time'')"

section \<open>Search gateway\<close>

text \<open>
  \<open>str.splitlines\<close> on the code points below 256: a line ends at a line feed, a
  carriage return (with a line feed after it, if any), a vertical tab, a form feed, one
  of the separators 0x1C to 0x1E, or 0x85; an empty last line is not reported.
\<close>

definition is_linebreak :: "char \<Rightarrow> bool" where
  "is_linebreak c = (let n = of_char c :: nat in
     (10 \<le> n \<and> n \<le> 13) \<or> (28 \<le> n \<and> n \<le> 30) \<or> n = 133)"

fun splitlines_from :: "string \<Rightarrow> string \<Rightarrow> string list" where
  "splitlines_from cur [] = (if cur = [] then [] else [cur])"
| "splitlines_from cur [c] = (if is_linebreak c then [cur] else [cur @ [c]])"
| "splitlines_from cur (c # d # cs) =
     (if c = CHR 0x0D \<and> d = CHR 0x0A then cur # splitlines_from [] cs
      else if is_linebreak c then cur # splitlines_from [] (d # cs)
      else splitlines_from (cur @ [c]) (d # cs))"

definition splitlines :: "string \<Rightarrow> string list" where
  "splitlines s = splitlines_from [] s"

text \<open>\<open>line.split("  ")\<close>: the pieces between non-overlapping double spaces.\<close>

fun split_double_space_from :: "string \<Rightarrow> string \<Rightarrow> string list" where
  "split_double_space_from cur [] = [cur]"
| "split_double_space_from cur [c] = [cur @ [c]]"
| "split_double_space_from cur (c # d # cs) =
     (if c = CHR '' '' \<and> d = CHR '' '' then cur # split_double_space_from [] cs
      else split_double_space_from (cur @ [c]) (d # cs))"

definition split_double_space :: "string \<Rightarrow> string list" where
  "split_double_space s = split_double_space_from [] s"

text \<open>\<open>' '.join(xs)\<close>.\<close>

fun join_space :: "string list \<Rightarrow> string" where
  "join_space [] = []"
| "join_space [x] = x"
| "join_space (x # y # xs) = x @ '' '' @ join_space (y # xs)"

text \<open>\<open>s[:n]\<close> for an integer \<open>n\<close>.\<close>

definition slice_to :: "int \<Rightarrow> string \<Rightarrow> string" where
  "slice_to n s = (if 0 \<le> n then take (nat n) s else take (length s - nat (- n)) s)"

definition extract_content :: "env \<Rightarrow> nat \<Rightarrow> string \<Rightarrow> int option \<Rightarrow> string + string" where
  "extract_content w attempt url max_length =
     (case visible_text w url attempt of
        Inl e \<Rightarrow> Inl e
      | Inr page \<Rightarrow>
          (let lines = map strip (splitlines page);
               chunks = concat (map (\<lambda>line. map strip (split_double_space line)) lines);
               cleaned = join_space (filter (\<lambda>chunk. chunk \<noteq> []) chunks)
           in Inr (case max_length of
                     Some n \<Rightarrow>
                       if n \<noteq> 0 \<and> n < int (length cleaned) then slice_to n cleaned @ ''...''
                       else cleaned
                   | None \<Rightarrow> cleaned)))"

record search_result =
  res_title :: string
  res_url :: string
  res_content :: string

text \<open>The body of \<open>search_and_extract\<close>: one attempt.\<close>

definition search_attempt :: "env \<Rightarrow> nat \<Rightarrow> string \<Rightarrow> int option \<Rightarrow> string + search_result" where
  "search_attempt w attempt query max_length =
     (case search_api w query attempt of
        Inl e \<Rightarrow> Inl e
      | Inr items \<Rightarrow>
          (case items of
             [] \<Rightarrow> Inl (''No Google search results found for query: '' @ query)
           | top_result # _ \<Rightarrow>
               (let t = (case item_title top_result of Some v \<Rightarrow> v | None \<Rightarrow> []);
                    u = (case item_link top_result of Some v \<Rightarrow> v | None \<Rightarrow> []);
                    content = (case extract_content w attempt u max_length of
                                 Inr c \<Rightarrow> c
                               | Inl _ \<Rightarrow>
                                   (case item_snippet top_result of
                                      Some v \<Rightarrow> v
                                    | None \<Rightarrow> ''Content extraction failed''))
                in Inr \<lparr>res_title = t, res_url = u, res_content = content\<rparr>)))"

text \<open>
  The retry decorator: up to three attempts, the first result that is returned is the
  result of the call, and the exception of the third attempt is raised again.
\<close>

definition search_and_extract :: "env \<Rightarrow> string \<Rightarrow> int option \<Rightarrow> string + search_result" where
  "search_and_extract w query max_length =
     (case search_attempt w 1 query max_length of
        Inr r \<Rightarrow> Inr r
      | Inl _ \<Rightarrow>
          (case search_attempt w 2 query max_length of
             Inr r \<Rightarrow> Inr r
           | Inl _ \<Rightarrow> search_attempt w 3 query max_length))"

definition WebSearchTool_execute :: "env \<Rightarrow> string \<Rightarrow> string" where
  "WebSearchTool_execute w query =
     (case search_and_extract w query (Some 3000) of
        Inr result \<Rightarrow>
          ''Found information from '' @ res_title result @ '':\<newline>\<newline>'' @ res_content result
      | Inl e \<Rightarrow> ''Error searching web: '' @ e)"

section \<open>Tool registry\<close>

datatype tool = CalculatorTool | DateTimeTool | DateCalculatorTool | WebSearchTool

text \<open>
  Building the registry builds the search client, which raises when one of its two
  environment variables is missing or empty.
\<close>

definition falsy_var :: "string option \<Rightarrow> bool" where
  "falsy_var v = (case v of None \<Rightarrow> True | Some s \<Rightarrow> s = [])"

definition ToolRegistry_init :: "env \<Rightarrow> string + unit" where
  "ToolRegistry_init w =
     (if falsy_var (google_api_key w) then
        Inl ''Google API key is required. Set GOOGLE_API_KEY environment variable.''
      else if falsy_var (google_search_engine_id w) then
        Inl ''Google Search Engine ID is required. Set GOOGLE_SEARCH_ENGINE_ID environment variable.''
      else Inr ())"

definition get_tool :: "string \<Rightarrow> tool option" where
  "get_tool name =
     map_of [(''calculator'', CalculatorTool), (''datetime'', DateTimeTool),
             (''datecalculator'', DateCalculatorTool), (''web_search'', WebSearchTool)] name"

definition name_of :: "tool \<Rightarrow> string" where
  "name_of t = (case t of
       CalculatorTool \<Rightarrow> ''calculator''
     | DateTimeTool \<Rightarrow> ''datetime''
     | DateCalculatorTool \<Rightarrow> ''datecalculator''
     | WebSearchTool \<Rightarrow> ''web_search'')"

text \<open>
  \<open>tool.execute(**tool_input)\<close>: keyword arguments that do not fit the signature raise
  \<open>TypeError\<close> before the body runs.
\<close>

definition execute :: "env \<Rightarrow> tool \<Rightarrow> tool_input \<Rightarrow> string + string" where
  "execute w t args =
     (case t of
        CalculatorTool \<Rightarrow>
          (case args of
             Expression e \<Rightarrow> Inr (CalculatorTool_execute (py_eval w) e)
           | _ \<Rightarrow> Inl (kwargs_error w (name_of t) (Some args)))
      | DateTimeTool \<Rightarrow>
          (case args of
             NoArgs \<Rightarrow> Inr (DateTimeTool_execute w None)
           | Format f \<Rightarrow> Inr (DateTimeTool_execute w (Some f))
           | _ \<Rightarrow> Inl (kwargs_error w (name_of t) (Some args)))
      | DateCalculatorTool \<Rightarrow>
          (case args of
             NoArgs \<Rightarrow> Inr (DateCalculatorTool_execute w None None)
           | Days d \<Rightarrow> Inr (DateCalculatorTool_execute w (Some d) None)
           | TargetDate s \<Rightarrow> Inr (DateCalculatorTool_execute w None (Some s))
           | _ \<Rightarrow> Inl (kwargs_error w (name_of t) (Some args)))
      | WebSearchTool \<Rightarrow>
          (case args of
             Query s \<Rightarrow> Inr (WebSearchTool_execute w s)
           | _ \<Rightarrow> Inl (kwargs_error w (name_of t) (Some args))))"

text \<open>
  The call as the tool node makes it, from \<open>state.get('tool_input', {})\<close>: a missing
  key gives the empty dict, and \<open>None\<close> cannot be unpacked as keyword arguments. An
  interrupt that arrives during the call is what the call raises.
\<close>

definition call_tool :: "env \<Rightarrow> tool \<Rightarrow> tool_input field \<Rightarrow> exn + string" where
  "call_tool w t inp =
     (case tool_interrupt w of
        Some b \<Rightarrow> Inl (BaseExc b)
      | None \<Rightarrow>
          (case inp of
             Absent \<Rightarrow> map_sum Exc id (execute w t NoArgs)
           | PyNone \<Rightarrow> Inl (Exc (kwargs_error w (name_of t) None))
           | Val args \<Rightarrow> map_sum Exc id (execute w t args)))"

section \<open>Workflow nodes\<close>

text \<open>
  \<open>reasoning_node\<close>. Both clients are built first, and either constructor can raise. The
  prompt is composed from the question, the history and the verdict of the termination
  policy, and goes to the model only; the model's reply for this turn is \<open>llm_reply\<close>,
  so the prompt text is not modelled. Printing is left out throughout. The node has no
  handler: whatever is raised inside leaves it.
\<close>

definition reasoning_node :: "env \<Rightarrow> agent_state \<Rightarrow> exn + channels" where
  "reasoning_node w state =
     (if falsy_var (anthropic_api_key w) then
        Inl (Exc ''ANTHROPIC_API_KEY not found in environment variables or provided'')
      else
        (case ToolRegistry_init w of
           Inl e \<Rightarrow> Inl (Exc e)
         | Inr _ \<Rightarrow>
             (case llm_reply w of
                Inl x \<Rightarrow> Inl x
              | Inr reasoning_text \<Rightarrow>
                  map_sum Exc id (parse_reasoning (question state) reasoning_text))))"

text \<open>
  The history entry appended by the tool node. \<open>state.get('thought', '')\<close> is the empty
  text for a missing key; a \<open>thought\<close> that is \<open>None\<close> leaves the entry without a text
  under that key.
\<close>

definition new_step :: "env \<Rightarrow> agent_state \<Rightarrow> string \<Rightarrow> string \<Rightarrow> step" where
  "new_step w state name obs =
     (let inp = py_str w (case tool_input state of Val args \<Rightarrow> args | _ \<Rightarrow> NoArgs) in
      case thought state of
        Val th \<Rightarrow> mk_step th name inp obs
      | Absent \<Rightarrow> mk_step [] name inp obs
      | PyNone \<Rightarrow> (mk_step [] name inp obs)(''thought'' := None))"

text \<open>
  \<open>tool_execution_node\<close>. Its handler is \<open>except Exception\<close>: an instance of
  \<open>Exception\<close> raised by the call becomes an error text, anything else leaves the node.
\<close>

definition tool_execution_node :: "env \<Rightarrow> agent_state \<Rightarrow> exn + channels" where
  "tool_execution_node w state =
     (case ToolRegistry_init w of
        Inl e \<Rightarrow> Inl (Exc e)
      | Inr _ \<Rightarrow>
          if \<not> truthy (tool_name state) then Inr (no_update\<lparr>error := Val ''No tool selected''\<rparr>)
          else
            (let name = (case tool_name state of Val n \<Rightarrow> n | _ \<Rightarrow> []) in
             case get_tool name of
               None \<Rightarrow>
                 Inr (no_update\<lparr>error :=
                        Val (''Tool '' @ [CHR 0x27] @ name @ [CHR 0x27] @ '' not found'')\<rparr>)
             | Some t \<Rightarrow>
                 (case call_tool w t (tool_input state) of
                    Inl (BaseExc b) \<Rightarrow> Inl (BaseExc b)
                  | Inl (Exc e) \<Rightarrow>
                      Inr (no_update\<lparr>error := Val (''Tool execution error: '' @ e)\<rparr>)
                  | Inr obs \<Rightarrow>
                      (case steps state of
                         PyNone \<Rightarrow>
                           Inr (no_update\<lparr>error :=
                                  Val (''Tool execution error: 'NoneType' object has no attribute 'append''
                                       @ [CHR 0x27])\<rparr>)
                       | Absent \<Rightarrow>
                           Inr (no_update\<lparr>observation := Val obs,
                                  steps := Val ([] @ [new_step w state name obs])\<rparr>)
                       | Val current_steps \<Rightarrow>
                           Inr (no_update\<lparr>observation := Val obs,
                                  steps := Val (current_steps @ [new_step w state name obs])\<rparr>)))))"

datatype route = execute_tool | provide_answer

definition route_after_reasoning :: "agent_state \<Rightarrow> route" where
  "route_after_reasoning state =
     (if truthy (final_answer state) then provide_answer
      else if truthy (tool_name state) then execute_tool
      else provide_answer)"

section \<open>Workflow graph\<close>

text \<open>
  The graph of \<open>create_workflow\<close>: entry at \<open>reason\<close>; after \<open>reason\<close> the router picks
  \<open>tool\<close> or the end; after \<open>tool\<close> the edge goes back to \<open>reason\<close>. \<open>graph_step\<close> runs one
  node, merges its update into the state and names the next node (\<open>None\<close> for the end).
\<close>

datatype node = Reason | Tool

definition graph_step :: "env \<Rightarrow> node \<Rightarrow> agent_state \<Rightarrow> exn + (node option \<times> agent_state)" where
  "graph_step w nd state =
     (case nd of
        Reason \<Rightarrow>
          (case reasoning_node w state of
             Inl e \<Rightarrow> Inl e
           | Inr u \<Rightarrow>
               (let state' = apply_update state u in
                Inr (case route_after_reasoning state' of
                       execute_tool \<Rightarrow> Some Tool
                     | provide_answer \<Rightarrow> None,
                     state')))
      | Tool \<Rightarrow>
          (case tool_execution_node w state of
             Inl e \<Rightarrow> Inl e
           | Inr u \<Rightarrow> Inr (Some Reason, apply_update state u)))"

text \<open>
  The graph library is outside the repository. Its run is modelled as follows: nodes run
  one after the other, each in the world of its moment (\<open>world k\<close> for the \<open>k\<close>-th node
  run). The library counts the node runs against \<open>recursion_limit\<close>: a run ends
  normally only when it reaches the end in fewer node runs than the limit; once the
  last node run the limit allows is over, the library raises its recursion error,
  whatever that node run selected. The message of the error is two fixed sentences and
  the note of the day. What a node raises leaves the run as it is. An exception leaves
  the run together with the state reached so far.
\<close>

definition recursion_limit :: nat where
  "recursion_limit = 25"

definition recursion_limit_text :: "string \<Rightarrow> string" where
  "recursion_limit_text note =
     ''Recursion limit of 25 reached without hitting a stop condition. ''
     @ ''You can increase the limit by setting the `recursion_limit` config key.''
     @ note"

fun invoke :: "(nat \<Rightarrow> env) \<Rightarrow> nat \<Rightarrow> nat \<Rightarrow> node \<Rightarrow> agent_state
                 \<Rightarrow> (exn \<times> agent_state) + agent_state" where
  "invoke world 0 k nd state =
     Inl (Exc (recursion_limit_text (recursion_note (world k))), state)"
| "invoke world (Suc fuel) k nd state =
     (case graph_step (world k) nd state of
        Inl x \<Rightarrow> Inl (x, state)
      | Inr (next_node, state') \<Rightarrow>
          if fuel = 0 then
            Inl (Exc (recursion_limit_text (recursion_note (world k))), state')
          else
            (case next_node of
               None \<Rightarrow> Inr state'
             | Some nd' \<Rightarrow> invoke world fuel (Suc k) nd' state'))"

section \<open>Top-level runner\<close>

record qa_result =
  r_question :: string
  answer :: "string option"
  r_steps :: "step list option"
  r_error :: "string option"

definition apology :: string where
  "apology = ''I apologize, but I wasn't able to complete the request as it required too many steps. ''
     @ ''Please try rephrasing your question or being more specific.''"

definition initial_state :: "string \<Rightarrow> agent_state" where
  "initial_state q =
     \<lparr>thought = Absent, tool_name = Absent, tool_input = Absent, observation = Absent,
      final_answer = Absent, steps = Val [], error = Absent, question = q\<rparr>"

text \<open>What the run of the graph raises for a question, if it raises.\<close>

definition graph_raises :: "(nat \<Rightarrow> env) \<Rightarrow> string \<Rightarrow> exn option" where
  "graph_raises world q =
     (case invoke world recursion_limit 0 Reason (initial_state q) of
        Inl (x, reached) \<Rightarrow> Some x
      | Inr final \<Rightarrow> None)"

text \<open>The last lines of \<open>run_qa_workflow\<close>: from the final state to the result.\<close>

definition extract_result :: "string \<Rightarrow> agent_state \<Rightarrow> qa_result" where
  "extract_result q result =
     \<lparr>r_question = q,
      answer = py_get_default (final_answer result) ''Unable to generate an answer'',
      r_steps = py_get_default (steps result) [],
      r_error = py_get (error result)\<rparr>"

text \<open>
  \<open>run_qa_workflow\<close>. Its handler is \<open>except Exception\<close>: an instance of \<open>Exception\<close>
  raised by the run is turned into a result, anything else leaves the function, so
  the function returns a result or raises (\<open>Inl\<close>). In the handler \<open>result\<close> is a shallow
  copy of the initial state; its history list is the list the tool node appends to in
  place, so it holds the entries of the state reached when the exception was raised.
\<close>

definition run_qa_workflow :: "(nat \<Rightarrow> env) \<Rightarrow> string \<Rightarrow> exn + qa_result" where
  "run_qa_workflow world q =
     (case invoke world recursion_limit 0 Reason (initial_state q) of
        Inr final \<Rightarrow> Inr (extract_result q final)
      | Inl (BaseExc b, reached) \<Rightarrow> Inl (BaseExc b)
      | Inl (Exc e, reached) \<Rightarrow>
          Inr (extract_result q
                 ((initial_state q)\<lparr>steps := steps reached, error := Val e,
                    final_answer := Val
                      (if contains ''recursion limit'' (lower e) then apology
                       else ''I encountered an error while processing your request: '' @ e)\<rparr>)))"

section \<open>Sample worlds\<close>

text \<open>
  Concrete worlds for the examples: \<open>quiet_env\<close> has all keys set, an evaluator that
  always yields 2, a clock at day 739000, a date parser that rejects everything, a
  search that finds nothing and no interrupt. \<open>scripted\<close> plays a list of model replies, one per
  reasoning turn (the reasoning node runs at the even moments).
\<close>

definition quiet_env :: env where
  "quiet_env =
     \<lparr>anthropic_api_key = Some ''k'', google_api_key = Some ''g'',
      google_search_engine_id = Some ''cx'', llm_reply = Inr [],
      py_eval = (\<lambda>e. Inr ''2''),
      now = \<lparr>ordinal = 739000, micros = 43200000000, tzinfo = None\<rparr>,
      year_of = (\<lambda>d. 2024),
      parse_date = (\<lambda>s. Inl ''Unknown string format''),
      strftime = (\<lambda>f d. f), strftime_checked = (\<lambda>f d. Inr f),
      timedelta_error = (\<lambda>d. ''days out of range''),
      search_api = (\<lambda>q k. Inr []), visible_text = (\<lambda>u k. Inl ''timed out''),
      py_str = (\<lambda>a. ''{}''), kwargs_error = (\<lambda>n a. ''bad keyword arguments''),
      tool_interrupt = None, recursion_note = []\<rparr>"

definition scripted :: "(exn + string) list \<Rightarrow> nat \<Rightarrow> env" where
  "scripted replies k =
     quiet_env\<lparr>llm_reply := (if k div 2 < length replies then replies ! (k div 2) else Inr [])\<rparr>"

text \<open>The state right after a first reasoning turn that selected a tool.\<close>

definition selected :: "string \<Rightarrow> tool_input \<Rightarrow> agent_state" where
  "selected name args =
     (initial_state ''q'')\<lparr>thought := Val [], tool_name := Val name,
        tool_input := Val args, final_answer := PyNone\<rparr>"

text \<open>\<open>missed\<close> is that state after the lookup of the unregistered tool \<open>lookup\<close> has failed.\<close>

definition missed :: agent_state where
  "missed = (selected ''lookup'' NoArgs)
     \<lparr>error := Val (''Tool '' @ [CHR 0x27] @ ''lookup'' @ [CHR 0x27] @ '' not found'')\<rparr>"





text \<open>
  Worlds for the date tool: the parser of \<open>future_env\<close> yields a naive value ten days
  after the clock's day, the parser of \<open>aware_env\<close> the same day as an aware value in UTC.
\<close>

definition future_env :: env where
  "future_env = quiet_env\<lparr>parse_date :=
     (\<lambda>s. Inr \<lparr>ordinal = 739010, micros = 32400000000, tzinfo = None\<rparr>)\<rparr>"

definition aware_env :: env where
  "aware_env = quiet_env\<lparr>parse_date :=
     (\<lambda>s. Inr \<lparr>ordinal = 739010, micros = 32400000000, tzinfo = Some 0\<rparr>)\<rparr>"

text \<open>
  Two names for the statements about the parser: \<open>tool_line t i\<close> is the stripped first
  line of the text after a tool marker at index \<open>i\<close>, and \<open>requested_input t q n\<close> is
  the input the parser computes for the tool name \<open>n\<close>, from the \<open>INPUT:\<close> section when
  there is one and from the question otherwise.
\<close>

definition tool_line :: "string \<Rightarrow> nat \<Rightarrow> string" where
  "tool_line t i = strip (first_line (strip (drop (i + 5) t)))"

definition requested_input :: "string \<Rightarrow> string \<Rightarrow> string \<Rightarrow> string + tool_input" where
  "requested_input t q n =
     (if contains ''INPUT:'' t then parse_tool_input n (input_section t)
      else parse_tool_input_from_question n q)"

text \<open>
  \<open>interrupted_env\<close>: an interrupt reaches the process while the tool runs.
  \<open>twelve_tools\<close> and \<open>eleven_tools\<close>: the model asks for the calculator twelve
  (eleven) times and then answers, which takes 25 (23) node runs.
\<close>

definition interrupted_env :: env where
  "interrupted_env = quiet_env\<lparr>tool_interrupt := Some ''KeyboardInterrupt''\<rparr>"

definition twelve_tools :: "nat \<Rightarrow> env" where
  "twelve_tools = scripted (replicate 12 (Inr ''TOOL: calculator\<newline>INPUT: 1+1'')
                            @ [Inr ''FINAL ANSWER: done''])"

definition eleven_tools :: "nat \<Rightarrow> env" where
  "eleven_tools = scripted (replicate 11 (Inr ''TOOL: calculator\<newline>INPUT: 1+1'')
                            @ [Inr ''FINAL ANSWER: done''])"

section \<open>Facts about strings\<close>

lemma str_find_None_iff:
  "(str_find sub t = None) = (\<not> sublist sub t)"
proof (induction t)
  case Nil
  show ?case by simp
next
  case (Cons c cs)
  show ?case using Cons.IH by (auto simp: sublist_Cons_right)
qed

lemma contains_sublist: "contains sub t = sublist sub t"
  unfolding contains_def str_find_None_iff by simp

lemma contains_append: "contains sub (ps @ sub @ ss)"
  by (auto simp: contains_sublist sublist_def)

section \<open>Facts about the termination policy\<close>

lemma card_set_eq_1_three:
  "(card {x, y, z} = Suc 0) = (x = y \<and> y = z)"
  by (auto simp: card_insert_if)

lemma last3_rev:
  "3 \<le> length xs \<Longrightarrow> \<exists>a b c ys. xs = ys @ [a, b, c]"
proof -
  assume h: "3 \<le> length xs"
  then obtain c xs1 where x1: "xs = xs1 @ [c]"
    by (metis length_0_conv not_numeral_le_zero rev_exhaust)
  with h have "2 \<le> length xs1" by simp
  then obtain b xs2 where x2: "xs1 = xs2 @ [b]"
    by (metis length_0_conv not_numeral_le_zero rev_exhaust)
  with \<open>2 \<le> length xs1\<close> have "1 \<le> length xs2" by simp
  then obtain a xs3 where x3: "xs2 = xs3 @ [a]"
    by (metis length_0_conv not_one_le_zero rev_exhaust)
  show ?thesis using x1 x2 x3 by simp
qed

lemma loop_test_iff:
  "(3 \<le> length hist
     \<and> card (set (map (\<lambda>s. s ''tool'') (last3 hist))) = 1
     \<and> card (set (map (\<lambda>s. py_str_opt (s ''tool_input'')) (last3 hist))) = 1)
   = last_three_identical hist"
proof (cases "3 \<le> length hist")
  case True
  then obtain a b c ys where xs: "hist = ys @ [a, b, c]"
    using last3_rev by blast
  show ?thesis
    unfolding xs last3_def last_three_identical_def
    by (simp add: card_set_eq_1_three)
next
  case False
  then have "length (rev hist) < 3" by simp
  then have "last_three_identical hist = False"
    unfolding last_three_identical_def
    by (auto split: list.splits)
  with False show ?thesis by simp
qed

lemma should_force_final_answer_alt:
  "should_force_final_answer hist =
     (if hist = [] then (False, '''')
      else if last_is_complete hist then (True, ''complete_answer'')
      else if last_three_identical hist then (True, ''loop_detected'')
      else if 10 \<le> length hist then (True, ''max_steps'')
      else (False, ''''))"
proof -
  have "hist \<noteq> [] \<Longrightarrow> 1 \<le> length hist"
    by (cases hist) simp_all
  then show ?thesis
    unfolding should_force_final_answer_def loop_test_iff last_is_complete_def
    by auto
qed

text \<open>
  C4 (as amended). The policy gives the reason \<open>loop_detected\<close> exactly when the
  last three history entries agree on the tool name and on the serialized input and the
  newest observation matches no complete-answer pattern, which is tested first; the
  flag is then \<open>True\<close>. In particular the reason is never given when the last three
  entries are not all identical, and never with fewer than three entries.
\<close>

theorem loop_detected_reason:
  "(snd (should_force_final_answer hist) = ''loop_detected'')
     = (last_three_identical hist \<and> \<not> last_is_complete hist)
   \<and> (last_three_identical hist \<and> \<not> last_is_complete hist
        \<longrightarrow> should_force_final_answer hist = (True, ''loop_detected''))
   \<and> (\<not> last_three_identical hist
        \<longrightarrow> snd (should_force_final_answer hist) \<noteq> ''loop_detected'')
   \<and> (length hist < 3 \<longrightarrow> snd (should_force_final_answer hist) \<noteq> ''loop_detected'')"
proof -
  have short: "length hist < 3 \<Longrightarrow> \<not> last_three_identical hist"
    unfolding last_three_identical_def
    by (cases "rev hist" rule: list.exhaust) (auto split: list.splits)
  have empty: "hist = [] \<Longrightarrow> \<not> last_three_identical hist"
    by (simp add: last_three_identical_def)
  show ?thesis
    using short empty unfolding should_force_final_answer_alt by auto
qed

theorem loop_detected_reason_witness:
  "should_force_final_answer
     [mk_step ''a'' ''web_search'' ''q'' ''Error searching web: x'',
      mk_step ''b'' ''web_search'' ''q'' ''Error searching web: x'',
      mk_step ''c'' ''web_search'' ''q'' ''Error searching web: x'']
   = (True, ''loop_detected'')
   \<and> snd (should_force_final_answer
        [mk_step ''a'' ''web_search'' ''q'' ''Error searching web: x'',
         mk_step ''b'' ''web_search'' ''r'' ''Error searching web: x'',
         mk_step ''c'' ''web_search'' ''q'' ''Error searching web: x'']) \<noteq> ''loop_detected''"
  using
    loop_detected_reason [of "[mk_step ''a'' ''web_search'' ''q'' ''Error searching web: x'',
      mk_step ''b'' ''web_search'' ''q'' ''Error searching web: x'',
      mk_step ''c'' ''web_search'' ''q'' ''Error searching web: x'']"]
    loop_detected_reason [of "[mk_step ''a'' ''web_search'' ''q'' ''Error searching web: x'',
      mk_step ''b'' ''web_search'' ''r'' ''Error searching web: x'',
      mk_step ''c'' ''web_search'' ''q'' ''Error searching web: x'']"]
  by (simp add: last_three_identical_def last_is_complete_def complete_answer_patterns_def
      step_get_def mk_step_def contains_def py_str_opt_def)

text \<open>
  C4 as stated fails: three identical calculator turns whose observation carries a
  result are reported as \<open>complete_answer\<close>, not as \<open>loop_detected\<close>.
\<close>

theorem loop_detected_counterexample:
  "last_three_identical
     [mk_step ''a'' ''calculator'' ''e'' ''Result: 2'',
      mk_step ''a'' ''calculator'' ''e'' ''Result: 2'',
      mk_step ''a'' ''calculator'' ''e'' ''Result: 2'']
   \<and> should_force_final_answer
     [mk_step ''a'' ''calculator'' ''e'' ''Result: 2'',
      mk_step ''a'' ''calculator'' ''e'' ''Result: 2'',
      mk_step ''a'' ''calculator'' ''e'' ''Result: 2'']
     = (True, ''complete_answer'')"
  by (simp add: should_force_final_answer_def last_three_identical_def
      complete_answer_patterns_def step_get_def mk_step_def contains_def)

text \<open>
  C5 (as amended). With ten or more entries the policy always fires. Its reason is
  \<open>max_steps\<close> exactly when the history has ten or more entries and neither earlier
  test applies (the newest observation matches no complete-answer pattern and the last
  three entries are not all identical); it is never \<open>max_steps\<close> for a history of
  fewer than ten entries.
\<close>

theorem max_steps_reason:
  "(snd (should_force_final_answer hist) = ''max_steps'')
     = (10 \<le> length hist \<and> \<not> last_is_complete hist \<and> \<not> last_three_identical hist)
   \<and> (10 \<le> length hist \<longrightarrow> fst (should_force_final_answer hist))
   \<and> (length hist < 10 \<longrightarrow> snd (should_force_final_answer hist) \<noteq> ''max_steps'')"
  unfolding should_force_final_answer_alt by auto

theorem max_steps_reason_witness:
  "should_force_final_answer
     (map (\<lambda>q. mk_step ''a'' ''web_search'' q ''Error searching web: x'')
        [''rome'', ''oslo'', ''bern'', ''kyiv'', ''riga'', ''lima'', ''doha'', ''baku'', ''suva'', ''male''])
   = (True, ''max_steps'')
   \<and> snd (should_force_final_answer
        (map (\<lambda>q. mk_step ''a'' ''web_search'' q ''Error searching web: x'')
           [''rome'', ''oslo'', ''bern'', ''kyiv'', ''riga'', ''lima'', ''doha'', ''baku'', ''suva''])) \<noteq> ''max_steps''"
  using
    max_steps_reason [of "map (\<lambda>q. mk_step ''a'' ''web_search'' q ''Error searching web: x'')
        [''rome'', ''oslo'', ''bern'', ''kyiv'', ''riga'', ''lima'', ''doha'', ''baku'', ''suva'', ''male'']"]
    max_steps_reason [of "map (\<lambda>q. mk_step ''a'' ''web_search'' q ''Error searching web: x'')
        [''rome'', ''oslo'', ''bern'', ''kyiv'', ''riga'', ''lima'', ''doha'', ''baku'', ''suva'']"]
  by (simp add: last_three_identical_def last_is_complete_def complete_answer_patterns_def
      step_get_def mk_step_def contains_def py_str_opt_def prod_eq_iff)

text \<open>
  C5 as stated fails: a history of ten entries whose newest observation carries a
  calculator result is reported as \<open>complete_answer\<close>, not as \<open>max_steps\<close>.
\<close>

theorem max_steps_counterexample:
  "length (map (\<lambda>q. mk_step ''a'' ''calculator'' q ''Result: 2'')
        [''rome'', ''oslo'', ''bern'', ''kyiv'', ''riga'', ''lima'', ''doha'', ''baku'', ''suva'', ''male'']) = 10
   \<and> should_force_final_answer
       (map (\<lambda>q. mk_step ''a'' ''calculator'' q ''Result: 2'')
          [''rome'', ''oslo'', ''bern'', ''kyiv'', ''riga'', ''lima'', ''doha'', ''baku'', ''suva'', ''male''])
     = (True, ''complete_answer'')"
  by (simp add: should_force_final_answer_def
      complete_answer_patterns_def step_get_def mk_step_def contains_def)

section \<open>Facts about the calculator tool\<close>

lemma sublist_map_mono: "sublist v e \<Longrightarrow> sublist (map f v) (map f e)"
  unfolding sublist_def by (metis map_append)

text \<open>
  C3. If the expression contains, as a substring, any spelling \<open>v\<close> of a disallowed
  token (a text whose lower-casing is \<open>import\<close>, \<open>exec\<close>, \<open>eval\<close> or a double
  underscore), the calculator returns the error text \<open>Error: Invalid expression\<close>
  whatever the evaluator would do: the evaluation step is not reached, so the
  outcome is the same for every evaluator.
\<close>

theorem calculator_rejects_disallowed:
  assumes "tok \<in> set bad_tokens" and "lower v = tok" and "sublist v expression"
  shows "CalculatorTool_execute ev expression = ''Error: Invalid expression''
         \<and> (\<forall>other. CalculatorTool_execute other expression
                      = CalculatorTool_execute ev expression)"
proof -
  have "sublist tok (lower expression)"
    using assms(2,3) sublist_map_mono [of v expression lower_char] by (simp add: lower_def)
  then have "contains tok (lower expression)"
    by (simp add: contains_sublist)
  with assms(1) have "list_ex (\<lambda>bad. contains bad (lower expression)) bad_tokens"
    by (auto simp: list_ex_iff)
  then show ?thesis
    by (simp add: CalculatorTool_execute_def)
qed

theorem calculator_rejects_disallowed_witness:
  "CalculatorTool_execute (\<lambda>e. Inr ''7'') ''1 + __IMPORT__(3)'' = ''Error: Invalid expression''
   \<and> CalculatorTool_execute (\<lambda>e. Inr ''7'') ''3 + 4'' = ''Result: 7''"
proof -
  have a: "''import'' \<in> set bad_tokens"
    by (simp add: bad_tokens_def)
  have b: "lower ''IMPORT'' = ''import''"
    by code_simp
  have c: "sublist ''IMPORT'' ''1 + __IMPORT__(3)''"
    by (simp add: sublist_Cons_right)
  have d: "CalculatorTool_execute (\<lambda>e. Inr ''7'') ''3 + 4'' = ''Result: 7''"
    by code_simp
  show ?thesis
    using calculator_rejects_disallowed [OF a b c, of "\<lambda>e. Inr ''7''"] d by simp
qed

text \<open>\<open>str_find\<close> gives the first occurrence, as \<open>str.find\<close> does.\<close>

lemma str_find_first:
  "str_find sub t = Some i \<Longrightarrow>
     i \<le> length t \<and> prefix sub (drop i t) \<and> (\<forall>j<i. \<not> prefix sub (drop j t))"
proof (induction t arbitrary: i)
  case Nil
  then show ?case by (simp split: if_splits)
next
  case (Cons c cs)
  show ?case
  proof (cases "prefix sub (c # cs)")
    case True
    with Cons.prems show ?thesis by simp
  next
    case False
    with Cons.prems obtain k where k: "str_find sub cs = Some k" and i: "i = Suc k"
      by auto
    from Cons.IH [OF k] have ih: "k \<le> length cs" "prefix sub (drop k cs)"
      "\<forall>j<k. \<not> prefix sub (drop j cs)" by auto
    have "\<forall>j<Suc k. \<not> prefix sub (drop j (c # cs))"
    proof (intro allI impI)
      fix j assume "j < Suc k"
      then show "\<not> prefix sub (drop j (c # cs))"
        using False ih(3) by (cases j) auto
    qed
    with ih i show ?thesis by simp
  qed
qed

lemma strip_eq_Nil: "(strip s = []) = (\<forall>c\<in>set s. is_space c)"
proof -
  have a: "(rstrip (lstrip s) = []) = (\<forall>c\<in>set (lstrip s). is_space c)"
    by (simp add: rstrip_def dropWhile_eq_Nil_conv)
  have b: "(\<forall>c\<in>set (lstrip s). is_space c) = (lstrip s = [])"
    unfolding lstrip_def
    by (metis dropWhile_eq_Nil_conv dropWhile_idem)
  have c: "(lstrip s = []) = (\<forall>c\<in>set s. is_space c)"
    by (simp add: lstrip_def dropWhile_eq_Nil_conv)
  show ?thesis unfolding strip_def using a b c by simp
qed

lemma rstrip_take: "\<exists>n. rstrip s = take n s"
proof -
  obtain m where "dropWhile is_space (rev s) = drop m (rev s)"
    using dropWhile_eq_drop by blast
  then have "rstrip s = take (length s - m) s"
    by (simp add: rstrip_def rev_drop)
  then show ?thesis by blast
qed

lemma strip_hd: "strip s \<noteq> [] \<Longrightarrow> \<not> is_space (hd (strip s))"
proof -
  assume h: "strip s \<noteq> []"
  obtain n where n: "strip s = take n (lstrip s)"
    unfolding strip_def using rstrip_take by blast
  with h have ne: "lstrip s \<noteq> []" and "n \<noteq> 0" by auto
  then have "hd (strip s) = hd (lstrip s)" using n by (cases "lstrip s"; cases n; simp)
  moreover have "\<not> is_space (hd (lstrip s))"
    using ne unfolding lstrip_def by (rule hd_dropWhile)
  ultimately show ?thesis by simp
qed

lemma newline_is_space: "is_space (CHR 0x0A)"
  by (simp add: is_space_def)

lemma tool_line_nonempty:
  assumes "strip x \<noteq> []"
  shows "strip (first_line (strip x)) \<noteq> []"
proof -
  obtain c cs where cs: "strip x = c # cs" using assms by (cases "strip x") auto
  have nsp: "\<not> is_space c" using strip_hd [OF assms] cs by simp
  then have "c \<noteq> CHR 0x0A" using newline_is_space by auto
  then have "c \<in> set (first_line (strip x))" by (simp add: cs first_line_def)
  with nsp show ?thesis by (auto simp: strip_eq_Nil)
qed

lemma extract_between_None:
  "str_find m t = Some i \<Longrightarrow> length m = k
     \<Longrightarrow> extract_between t m None = strip (drop (i + k) t)"
  by (simp add: extract_between_def)

lemma extract_between_missing:
  "str_find m t = None \<Longrightarrow> extract_between t m e = []"
  by (simp add: extract_between_def)

lemma lstrip_strip: "lstrip (strip s) = strip s"
proof (cases "strip s")
  case Nil
  then show ?thesis by (simp add: lstrip_def)
next
  case (Cons c cs)
  then have "\<not> is_space c" using strip_hd [of s] by simp
  then show ?thesis using Cons by (simp add: lstrip_def)
qed

lemma rstrip_idem: "rstrip (rstrip s) = rstrip s"
  by (simp add: rstrip_def)

lemma strip_idem: "strip (strip s) = strip s"
proof -
  have "strip (strip s) = rstrip (lstrip (strip s))" by (simp add: strip_def)
  also have "\<dots> = rstrip (strip s)" by (simp add: lstrip_strip)
  also have "\<dots> = strip s" by (simp add: strip_def rstrip_idem)
  finally show ?thesis .
qed

lemma first_line_no_newline: "CHR 0x0A \<notin> set s \<Longrightarrow> first_line s = s"
  unfolding first_line_def takeWhile_eq_all_conv by blast

lemma tool_line_eq:
  "(if strip x \<noteq> [] \<and> CHR 0x0A \<in> set (strip x) then strip (first_line (strip x)) else strip x)
   = strip (first_line (strip x))"
proof (cases "CHR 0x0A \<in> set (strip x)")
  case True
  then have "strip x \<noteq> []" by auto
  with True show ?thesis by simp
next
  case False
  then have "first_line (strip x) = strip x" by (rule first_line_no_newline)
  with False show ?thesis by (simp add: strip_idem)
qed

section \<open>Facts about the action parser\<close>

lemma py_int_Inl: "py_int s = Inl e \<Longrightarrow> \<exists>m. 4300 < m \<and> e = int_limit_text m"
  by (auto simp: py_int_def Let_def split: if_splits)

lemma parse_tool_input_Inl:
  "parse_tool_input n r = Inl e \<Longrightarrow>
     n = ''datecalculator'' \<and> (\<exists>m. 4300 < m \<and> e = int_limit_text m)"
  by (auto simp: parse_tool_input_def Let_def split: if_splits option.splits sum.splits
      dest: py_int_Inl)

lemma parse_tool_input_from_question_Inl:
  "parse_tool_input_from_question n q = Inl e \<Longrightarrow>
     n = ''datecalculator'' \<and> (\<exists>m. 4300 < m \<and> e = int_limit_text m)"
  by (auto simp: parse_tool_input_from_question_def split: if_splits sum.splits
      dest: py_int_Inl)

lemma parse_tool_branch:
  assumes "str_find ''TOOL:'' t = Some i" and "\<not> contains ''FINAL ANSWER:'' (take i t)"
  shows "parse_reasoning q t = Inr u \<Longrightarrow> final_answer u = PyNone"
    and "(\<exists>c\<in>set (drop (i + 5) t). \<not> is_space c) \<Longrightarrow>
           strip (first_line (strip (drop (i + 5) t))) \<noteq> []
           \<and> (case (if contains ''INPUT:'' t
                     then parse_tool_input (strip (first_line (strip (drop (i + 5) t))))
                            (input_section t)
                     else parse_tool_input_from_question
                            (strip (first_line (strip (drop (i + 5) t)))) q) of
                 Inl e \<Rightarrow> parse_reasoning q t = Inl e
               | Inr a \<Rightarrow>
                   (\<exists>u. parse_reasoning q t = Inr u
                      \<and> tool_name u = Val (strip (first_line (strip (drop (i + 5) t))))
                      \<and> tool_input u = Val a \<and> final_answer u = PyNone))"
    and "(\<forall>c\<in>set (drop (i + 5) t). is_space c) \<Longrightarrow>
           (\<exists>u. parse_reasoning q t = Inr u \<and> tool_name u = PyNone
              \<and> tool_input u = PyNone \<and> final_answer u = PyNone)"
proof -
  have eb: "extract_between t ''TOOL:'' None = strip (drop (i + 5) t)"
    by (rule extract_between_None [OF assms(1)]) simp
  show "parse_reasoning q t = Inr u \<Longrightarrow> final_answer u = PyNone"
    using assms
    by (auto simp: parse_reasoning_def Let_def no_update_def split: sum.splits if_splits)
  {
    assume "\<exists>c\<in>set (drop (i + 5) t). \<not> is_space c"
    then have ne: "strip (drop (i + 5) t) \<noteq> []" by (simp add: strip_eq_Nil)
    then have ne2: "strip (first_line (strip (drop (i + 5) t))) \<noteq> []"
      by (rule tool_line_nonempty)
    show "strip (first_line (strip (drop (i + 5) t))) \<noteq> []
           \<and> (case (if contains ''INPUT:'' t
                     then parse_tool_input (strip (first_line (strip (drop (i + 5) t))))
                            (input_section t)
                     else parse_tool_input_from_question
                            (strip (first_line (strip (drop (i + 5) t)))) q) of
                 Inl e \<Rightarrow> parse_reasoning q t = Inl e
               | Inr a \<Rightarrow>
                   (\<exists>u. parse_reasoning q t = Inr u
                      \<and> tool_name u = Val (strip (first_line (strip (drop (i + 5) t))))
                      \<and> tool_input u = Val a \<and> final_answer u = PyNone))"
      using assms ne2
      by (simp add: parse_reasoning_def Let_def no_update_def eb tool_line_eq split: sum.splits)
  }
  {
    assume "\<forall>c\<in>set (drop (i + 5) t). is_space c"
    then have "strip (drop (i + 5) t) = []" by (simp add: strip_eq_Nil)
    then show "\<exists>u. parse_reasoning q t = Inr u \<and> tool_name u = PyNone
              \<and> tool_input u = PyNone \<and> final_answer u = PyNone"
      using assms by (simp add: parse_reasoning_def Let_def no_update_def eb)
  }
qed

lemma parse_answer_branch:
  assumes "\<not> tool_marker_first t" and "str_find ''FINAL ANSWER:'' t = Some j"
  shows "\<exists>u. parse_reasoning q t = Inr u \<and> tool_name u = PyNone
           \<and> ((\<exists>c\<in>set (drop (j + 13) t). \<not> is_space c) \<longrightarrow>
                 final_answer u = Val (strip (drop (j + 13) t)))
           \<and> ((\<forall>c\<in>set (drop (j + 13) t). is_space c) \<longrightarrow> final_answer u = PyNone)"
proof -
  have c: "contains ''FINAL ANSWER:'' t" using assms(2) by (simp add: contains_def)
  have eb: "extract_between t ''FINAL ANSWER:'' None = strip (drop (j + 13) t)"
    by (rule extract_between_None [OF assms(2)]) simp
  have nt: "(case str_find ''TOOL:'' t of None \<Rightarrow> False
             | Some i \<Rightarrow> \<not> contains ''FINAL ANSWER:'' (take i t)) = False"
    using assms(1) by (simp add: tool_marker_first_def)
  show ?thesis
  proof (cases "strip (drop (j + 13) t) = []")
    case True
    then show ?thesis
      unfolding parse_reasoning_def Let_def nt using c
      by (simp add: no_update_def eb strip_eq_Nil)
  next
    case False
    then show ?thesis
      unfolding parse_reasoning_def Let_def nt using c
      by (simp add: no_update_def eb strip_eq_Nil)
  qed
qed

lemma parse_neither_branch:
  assumes "\<not> tool_marker_first t" and "\<not> contains ''FINAL ANSWER:'' t"
  shows "\<exists>u. parse_reasoning q t = Inr u \<and> tool_name u = PyNone \<and> final_answer u = PyNone"
proof -
  have nt: "(case str_find ''TOOL:'' t of None \<Rightarrow> False
             | Some i \<Rightarrow> \<not> contains ''FINAL ANSWER:'' (take i t)) = False"
    using assms(1) by (simp add: tool_marker_first_def)
  show ?thesis
    unfolding parse_reasoning_def Let_def nt using assms(2) by (simp add: no_update_def)
qed

lemma requested_input_Inl:
  "requested_input t q n = Inl e \<Longrightarrow>
     n = ''datecalculator'' \<and> (\<exists>m. 4300 < m \<and> e = int_limit_text m)"
  unfolding requested_input_def
  by (auto split: if_splits dest: parse_tool_input_Inl parse_tool_input_from_question_Inl)

lemma seven_facts:
  "lower_char (CHR ''7'') = CHR ''7''" "is_digit (CHR ''7'')"
  by code_simp+

lemma not_contains_replicate:
  assumes "c \<in> set sub" and "c \<noteq> d"
  shows "\<not> contains sub (replicate n d)"
proof
  assume "contains sub (replicate n d)"
  then have "set sub \<subseteq> set (replicate n d)"
    by (simp add: contains_sublist set_mono_sublist)
  with assms show False by auto
qed

lemma suffix_single_replicate: "a \<noteq> d \<Longrightarrow> \<not> suffix [a] (replicate n d)"
proof
  assume ad: "a \<noteq> d" and "suffix [a] (replicate n d)"
  then obtain ys where "replicate n d = ys @ [a]" by (auto simp: suffix_def)
  then have "a \<in> set (replicate n d)" by (metis in_set_conv_decomp)
  with ad show False by auto
qed

lemma prefix_single_replicate: "a \<noteq> d \<Longrightarrow> \<not> prefix [a] (replicate n d)"
  by (cases n) auto

lemma from_question_long:
  assumes "4300 < n"
  shows "parse_tool_input_from_question ''datecalculator'' (replicate n (CHR ''7''))
           = Inl (int_limit_text n)"
proof -
  have l: "lower (replicate n (CHR ''7'')) = replicate n (CHR ''7'')"
    by (simp add: lower_def seven_facts)
  have u: "\<not> contains ''until'' (replicate n (CHR ''7''))"
    by (rule not_contains_replicate [of "CHR ''u''"]) simp_all
  have d: "\<not> contains ''days to'' (replicate n (CHR ''7''))"
    by (rule not_contains_replicate [of "CHR ''d''"]) simp_all
  have f: "first_number (replicate n (CHR ''7'')) = replicate n (CHR ''7'')"
    by (simp add: first_number_def seven_facts)
  have p: "py_int (replicate n (CHR ''7'')) = Inl (int_limit_text n)"
    using assms
    by (simp add: py_int_def Let_def suffix_single_replicate prefix_single_replicate)
  have ne: "replicate n (CHR ''7'') \<noteq> []" using assms by auto
  show ?thesis
    unfolding parse_tool_input_from_question_def l f p using u d ne by simp
qed

lemma tool_only_facts:
  "str_find ''TOOL:'' ''TOOL: datecalculator'' = Some 0"
  "\<not> contains ''FINAL ANSWER:'' (take 0 ''TOOL: datecalculator'')"
  "\<exists>c\<in>set (drop (0 + 5) ''TOOL: datecalculator''). \<not> is_space c"
  "tool_line ''TOOL: datecalculator'' 0 = ''datecalculator''"
  "\<not> contains ''INPUT:'' ''TOOL: datecalculator''"
  by code_simp+

lemma map_sum_Inr: "map_sum f g x = Inr e \<Longrightarrow> \<exists>d. x = Inr d \<and> g d = e"
  by (cases x) auto

text \<open>
  C1 (as amended). Let \<open>TOOL:\<close> occur first at index \<open>i\<close> with no \<open>FINAL ANSWER:\<close>
  in the text before it. Then no update of the parser sets a final answer, even if a
  final-answer marker comes later. When the text after the marker is not blank, the
  tool name is its stripped first line, which is not empty, and the parser selects that
  tool with the input it computes; the one exception is a \<open>datecalculator\<close> input that is
  an integer of more than 4300 digits, for which the integer conversion raises and the
  turn gives no update at all. When the text after the marker is blank, nothing is
  selected. If that condition fails and \<open>FINAL ANSWER:\<close> occurs (first at \<open>j\<close>), no tool
  is selected, and the final answer is the stripped text after the marker when it is
  not blank, and is not set when it is blank. If neither case applies, the parser
  sets neither a tool nor a final answer.
\<close>

theorem parser_precedence:
  "(str_find ''TOOL:'' t = Some i \<and> \<not> contains ''FINAL ANSWER:'' (take i t) \<longrightarrow>
      (\<forall>u. parse_reasoning q t = Inr u \<longrightarrow> final_answer u = PyNone)
      \<and> ((\<exists>c\<in>set (drop (i + 5) t). \<not> is_space c) \<longrightarrow>
           tool_line t i \<noteq> []
           \<and> (\<forall>a. requested_input t q (tool_line t i) = Inr a \<longrightarrow>
                 (\<exists>u. parse_reasoning q t = Inr u \<and> tool_name u = Val (tool_line t i)
                    \<and> tool_input u = Val a \<and> final_answer u = PyNone))
           \<and> (\<forall>e. requested_input t q (tool_line t i) = Inl e \<longrightarrow>
                 parse_reasoning q t = Inl e \<and> tool_line t i = ''datecalculator''
                 \<and> (\<exists>m. 4300 < m \<and> e = int_limit_text m)))
      \<and> ((\<forall>c\<in>set (drop (i + 5) t). is_space c) \<longrightarrow>
           (\<exists>u. parse_reasoning q t = Inr u \<and> tool_name u = PyNone
              \<and> final_answer u = PyNone)))
   \<and> (\<not> tool_marker_first t \<and> str_find ''FINAL ANSWER:'' t = Some j \<longrightarrow>
        (\<exists>u. parse_reasoning q t = Inr u \<and> tool_name u = PyNone
           \<and> ((\<exists>c\<in>set (drop (j + 13) t). \<not> is_space c) \<longrightarrow>
                 final_answer u = Val (strip (drop (j + 13) t)))
           \<and> ((\<forall>c\<in>set (drop (j + 13) t). is_space c) \<longrightarrow> final_answer u = PyNone)))
   \<and> (\<not> tool_marker_first t \<and> \<not> contains ''FINAL ANSWER:'' t \<longrightarrow>
        (\<exists>u. parse_reasoning q t = Inr u \<and> tool_name u = PyNone \<and> final_answer u = PyNone))"
proof (intro conjI impI allI)
  assume h: "str_find ''TOOL:'' t = Some i \<and> \<not> contains ''FINAL ANSWER:'' (take i t)"
  then have a: "str_find ''TOOL:'' t = Some i" and b: "\<not> contains ''FINAL ANSWER:'' (take i t)"
    by simp_all
  {
    fix u assume "parse_reasoning q t = Inr u"
    then show "final_answer u = PyNone" by (rule parse_tool_branch(1) [OF a b])
  }
  {
    assume ne: "\<exists>c\<in>set (drop (i + 5) t). \<not> is_space c"
    note br = parse_tool_branch(2) [OF a b ne, of q, folded tool_line_def requested_input_def]
    show "tool_line t i \<noteq> []" using br by simp
    {
      fix x assume "requested_input t q (tool_line t i) = Inr x"
      then show "\<exists>u. parse_reasoning q t = Inr u \<and> tool_name u = Val (tool_line t i)
                    \<and> tool_input u = Val x \<and> final_answer u = PyNone"
        using br by simp
    }
    {
      fix e assume r: "requested_input t q (tool_line t i) = Inl e"
      then show "parse_reasoning q t = Inl e" using br by simp
      from r show "tool_line t i = ''datecalculator''"
        using requested_input_Inl by blast
      from r show "\<exists>m. 4300 < m \<and> e = int_limit_text m"
        using requested_input_Inl by blast
    }
  }
  {
    assume bl: "\<forall>c\<in>set (drop (i + 5) t). is_space c"
    show "\<exists>u. parse_reasoning q t = Inr u \<and> tool_name u = PyNone \<and> final_answer u = PyNone"
      using parse_tool_branch(3) [OF a b bl, of q] by blast
  }
next
  assume h: "\<not> tool_marker_first t \<and> str_find ''FINAL ANSWER:'' t = Some j"
  then show "\<exists>u. parse_reasoning q t = Inr u \<and> tool_name u = PyNone
           \<and> ((\<exists>c\<in>set (drop (j + 13) t). \<not> is_space c) \<longrightarrow>
                 final_answer u = Val (strip (drop (j + 13) t)))
           \<and> ((\<forall>c\<in>set (drop (j + 13) t). is_space c) \<longrightarrow> final_answer u = PyNone)"
    using parse_answer_branch [of t j q] by simp
next
  assume h: "\<not> tool_marker_first t \<and> \<not> contains ''FINAL ANSWER:'' t"
  then show "\<exists>u. parse_reasoning q t = Inr u \<and> tool_name u = PyNone \<and> final_answer u = PyNone"
    using parse_neither_branch [of t q] by simp
qed

theorem parser_precedence_witness:
  "(\<exists>u. parse_reasoning ''q'' ''TOOL: calculator\<newline>INPUT: 2+2\<newline>FINAL ANSWER: 4'' = Inr u
        \<and> tool_name u = Val ''calculator'' \<and> tool_input u = Val (Expression ''2+2'')
        \<and> final_answer u = PyNone)
   \<and> parse_reasoning (replicate 4301 (CHR ''7'')) ''TOOL: datecalculator''
       = Inl (int_limit_text 4301)
   \<and> (\<exists>u. parse_reasoning ''q'' ''FINAL ANSWER: 4\<newline>TOOL: calculator'' = Inr u
        \<and> tool_name u = PyNone \<and> final_answer u = Val ''4\<newline>TOOL: calculator'')
   \<and> (\<exists>u. parse_reasoning ''q'' ''I do not know.'' = Inr u
        \<and> tool_name u = PyNone \<and> final_answer u = PyNone)"
proof -
  have a1: "str_find ''TOOL:'' ''TOOL: calculator\<newline>INPUT: 2+2\<newline>FINAL ANSWER: 4'' = Some 0
            \<and> \<not> contains ''FINAL ANSWER:'' (take 0 ''TOOL: calculator\<newline>INPUT: 2+2\<newline>FINAL ANSWER: 4'')"
    by code_simp
  have a3: "\<exists>c\<in>set (drop (0 + 5) ''TOOL: calculator\<newline>INPUT: 2+2\<newline>FINAL ANSWER: 4''). \<not> is_space c"
    by code_simp
  have a4: "tool_line ''TOOL: calculator\<newline>INPUT: 2+2\<newline>FINAL ANSWER: 4'' 0 = ''calculator''"
    by code_simp
  have a5: "requested_input ''TOOL: calculator\<newline>INPUT: 2+2\<newline>FINAL ANSWER: 4'' ''q''
              (tool_line ''TOOL: calculator\<newline>INPUT: 2+2\<newline>FINAL ANSWER: 4'' 0)
              = Inr (Expression ''2+2'')"
    by code_simp
  note p1 = parser_precedence [of "''TOOL: calculator\<newline>INPUT: 2+2\<newline>FINAL ANSWER: 4''" 0 "''q''" 0,
      THEN conjunct1, THEN mp, OF a1, THEN conjunct2, THEN conjunct1, THEN mp, OF a3,
      THEN conjunct2, THEN conjunct1, THEN spec, THEN mp, OF a5]
  have first: "\<exists>u. parse_reasoning ''q'' ''TOOL: calculator\<newline>INPUT: 2+2\<newline>FINAL ANSWER: 4'' = Inr u
        \<and> tool_name u = Val ''calculator'' \<and> tool_input u = Val (Expression ''2+2'')
        \<and> final_answer u = PyNone"
    using p1 unfolding a4 .
  have l0: "str_find ''TOOL:'' ''TOOL: datecalculator'' = Some 0
            \<and> \<not> contains ''FINAL ANSWER:'' (take 0 ''TOOL: datecalculator'')"
    using tool_only_facts(1,2) by (rule conjI)
  have l1: "requested_input ''TOOL: datecalculator'' (replicate n (CHR ''7''))
              (tool_line ''TOOL: datecalculator'' 0) = Inl (int_limit_text n)"
    if "4300 < n" for n
    unfolding tool_only_facts(4)
    using from_question_long [OF that] tool_only_facts(5) by (simp add: requested_input_def)
  have l2: "parse_reasoning (replicate n (CHR ''7'')) ''TOOL: datecalculator''
              = Inl (int_limit_text n)" if "4300 < n" for n
    by (rule parser_precedence [of "''TOOL: datecalculator''" 0 "replicate n (CHR ''7'')" 0,
      THEN conjunct1, THEN mp, OF l0, THEN conjunct2, THEN conjunct1, THEN mp,
      OF tool_only_facts(3), THEN conjunct2, THEN conjunct2, THEN spec, THEN mp,
      OF l1 [OF that], THEN conjunct1])
  have "(4300::nat) < 4301" by simp
  note p2 = l2 [OF this]
  have b1: "\<not> tool_marker_first ''FINAL ANSWER: 4\<newline>TOOL: calculator''
            \<and> str_find ''FINAL ANSWER:'' ''FINAL ANSWER: 4\<newline>TOOL: calculator'' = Some 0"
    by code_simp
  have b3: "\<exists>c\<in>set (drop (0 + 13) ''FINAL ANSWER: 4\<newline>TOOL: calculator''). \<not> is_space c"
    by code_simp
  have b4: "strip (drop (0 + 13) ''FINAL ANSWER: 4\<newline>TOOL: calculator'') = ''4\<newline>TOOL: calculator''"
    by code_simp
  note p3 = parser_precedence [of "''FINAL ANSWER: 4\<newline>TOOL: calculator''" 0 "''q''" 0,
      THEN conjunct2, THEN conjunct1, THEN mp, OF b1]
  have third: "\<exists>u. parse_reasoning ''q'' ''FINAL ANSWER: 4\<newline>TOOL: calculator'' = Inr u
        \<and> tool_name u = PyNone \<and> final_answer u = Val ''4\<newline>TOOL: calculator''"
    using p3
  proof (elim exE conjE)
    fix u
    assume u: "parse_reasoning ''q'' ''FINAL ANSWER: 4\<newline>TOOL: calculator'' = Inr u"
      and n: "tool_name u = PyNone"
      and f: "(\<exists>c\<in>set (drop (0 + 13) ''FINAL ANSWER: 4\<newline>TOOL: calculator''). \<not> is_space c) \<longrightarrow>
                 final_answer u = Val (strip (drop (0 + 13) ''FINAL ANSWER: 4\<newline>TOOL: calculator''))"
    from f [THEN mp, OF b3] have "final_answer u = Val ''4\<newline>TOOL: calculator''"
      unfolding b4 .
    with u n show ?thesis by (intro exI conjI)
  qed
  have c1: "\<not> tool_marker_first ''I do not know.''
            \<and> \<not> contains ''FINAL ANSWER:'' ''I do not know.''"
    by code_simp
  note p4 = parser_precedence [of "''I do not know.''" 0 "''q''" 0,
      THEN conjunct2, THEN conjunct2, THEN mp, OF c1]
  from first p2 third p4 show ?thesis by (intro conjI)
qed

text \<open>
  C1 as stated fails: in the text \<open>TOOL:\<close> the tool marker occurs with no final-answer
  marker before it, yet no tool is selected, since the tool name is empty; and in the
  text \<open>FINAL ANSWER:\<close> the final-answer marker is present, yet no final answer is set,
  since the answer is empty.
\<close>

theorem parser_precedence_counterexample:
  "str_find ''TOOL:'' ''TOOL:'' = Some 0
   \<and> \<not> contains ''FINAL ANSWER:'' (take 0 ''TOOL:'')
   \<and> map_sum id tool_name (parse_reasoning ''q'' ''TOOL:'') = Inr PyNone
   \<and> contains ''FINAL ANSWER:'' ''FINAL ANSWER:''
   \<and> \<not> tool_marker_first ''FINAL ANSWER:''
   \<and> map_sum id final_answer (parse_reasoning ''q'' ''FINAL ANSWER:'') = Inr PyNone"
  by code_simp

text \<open>
  C9. One run of the parser never sets both a tool name and a final answer: in every
  update it returns, at least one of \<open>tool_name\<close> and \<open>final_answer\<close> is \<open>None\<close>.
\<close>

theorem parser_exclusive:
  "parse_reasoning q t = Inr u \<Longrightarrow> tool_name u = PyNone \<or> final_answer u = PyNone"
  by (auto simp: parse_reasoning_def Let_def no_update_def split: option.splits sum.splits if_splits)

theorem parser_exclusive_witness:
  "map_sum id tool_name (parse_reasoning ''q'' ''FINAL ANSWER: 4\<newline>TOOL: calculator'') = Inr PyNone"
proof -
  have "map_sum id final_answer (parse_reasoning ''q'' ''FINAL ANSWER: 4\<newline>TOOL: calculator'')
          = Inr (Val ''4\<newline>TOOL: calculator'')"
    by code_simp
  then have "\<exists>d. parse_reasoning ''q'' ''FINAL ANSWER: 4\<newline>TOOL: calculator'' = Inr d
               \<and> final_answer d = Val ''4\<newline>TOOL: calculator''"
    by (rule map_sum_Inr)
  then show ?thesis
  proof (elim exE conjE)
    fix d
    assume u: "parse_reasoning ''q'' ''FINAL ANSWER: 4\<newline>TOOL: calculator'' = Inr d"
      and f: "final_answer d = Val ''4\<newline>TOOL: calculator''"
    from parser_exclusive [OF u] f have "tool_name d = PyNone" by simp
    with u show ?thesis by simp
  qed
qed

section \<open>Facts about the search gateway\<close>





section \<open>Facts about the tool node and the graph\<close>

lemma apply_error_update:
  "apply_update state (no_update\<lparr>error := Val x\<rparr>) = state\<lparr>error := Val x\<rparr>"
  by (simp add: apply_update_def no_update_def merge_field_def)

lemma truthy_Val: "truthy (Val n) = (n \<noteq> [])"
  by (simp add: truthy_def)

lemma parse_untouched:
  "parse_reasoning q t = Inr u \<Longrightarrow>
     observation u = Absent \<and> steps u = Absent \<and> error u = Absent"
  by (auto simp: parse_reasoning_def Let_def no_update_def split: option.splits sum.splits if_splits)

lemma selected_is_parsed:
  "\<exists>u. parse_reasoning ''q'' ''TOOL: lookup'' = Inr u
       \<and> apply_update (initial_state ''q'') u = selected ''lookup'' NoArgs"
proof -
  have a: "map_sum id thought (parse_reasoning ''q'' ''TOOL: lookup'') = Inr (Val [])"
    by code_simp
  have b: "map_sum id tool_name (parse_reasoning ''q'' ''TOOL: lookup'') = Inr (Val ''lookup'')"
    by code_simp
  have c: "map_sum id tool_input (parse_reasoning ''q'' ''TOOL: lookup'') = Inr (Val NoArgs)"
    by code_simp
  have d: "map_sum id final_answer (parse_reasoning ''q'' ''TOOL: lookup'') = Inr PyNone"
    by code_simp
  from a have "\<exists>u. parse_reasoning ''q'' ''TOOL: lookup'' = Inr u \<and> thought u = Val []"
    by (rule map_sum_Inr)
  then show ?thesis
  proof (elim exE conjE)
    fix u
    assume u: "parse_reasoning ''q'' ''TOOL: lookup'' = Inr u" and t: "thought u = Val []"
    from b c d u have f: "tool_name u = Val ''lookup''" "tool_input u = Val NoArgs"
      "final_answer u = PyNone" by simp_all
    have "apply_update (initial_state ''q'') u = selected ''lookup'' NoArgs"
      using parse_untouched [OF u] t f
      by (simp add: apply_update_def selected_def initial_state_def merge_field_def)
    with u show ?thesis by (intro exI conjI)
  qed
qed

lemma tool_step_next:
  "graph_step w Tool s = Inr (nxt, s') \<Longrightarrow> nxt = Some Reason"
  by (auto simp: graph_step_def split: sum.splits)

lemma parse_tool_name_set:
  "parse_reasoning q t = Inr u \<Longrightarrow>
     (tool_name u = PyNone \<or> (\<exists>n. tool_name u = Val n)) \<and>
     (final_answer u = PyNone \<or> (\<exists>a. final_answer u = Val a))"
  by (auto simp: parse_reasoning_def Let_def no_update_def split: option.splits sum.splits if_splits)

lemma reason_step_end:
  assumes "graph_step w Reason s = Inr (None, final)"
  shows "\<not> truthy (tool_name final)"
proof -
  from assms obtain u where u: "reasoning_node w s = Inr u" and f: "final = apply_update s u"
    and r: "route_after_reasoning (apply_update s u) = provide_answer"
    by (auto simp: graph_step_def Let_def split: sum.splits route.splits)
  from u obtain t where p: "parse_reasoning (question s) t = Inr u"
    by (auto simp: reasoning_node_def split: if_splits sum.splits dest: map_sum_Inr)
  have tn: "tool_name final = tool_name u" and fa: "final_answer final = final_answer u"
    using parse_tool_name_set [OF p] f by (auto simp: apply_update_def merge_field_def)
  show ?thesis
  proof (cases "truthy (final_answer final)")
    case True
    then have "final_answer u \<noteq> PyNone" using fa by (auto simp: truthy_def)
    with parser_exclusive [OF p] have "tool_name u = PyNone" by simp
    with tn show ?thesis by (simp add: truthy_def)
  next
    case False
    with r f show ?thesis by (simp add: route_after_reasoning_def split: if_splits)
  qed
qed

lemma invoke_ends:
  "invoke world fuel k nd state = Inr final \<Longrightarrow>
     \<exists>j s. k \<le> j \<and> graph_step (world j) Reason s = Inr (None, final)"
proof (induction fuel arbitrary: k nd state)
  case 0
  then show ?case by simp
next
  case (Suc fuel)
  from Suc.prems obtain nxt s' where g: "graph_step (world k) nd state = Inr (nxt, s')"
    by (auto split: sum.splits)
  with Suc.prems have nz: "fuel \<noteq> 0" by (auto split: if_splits)
  show ?case
  proof (cases nxt)
    case None
    with g Suc.prems nz have fin: "final = s'" by simp
    have "nd = Reason"
    proof (cases nd)
      case Reason then show ?thesis .
    next
      case Tool
      with g None tool_step_next show ?thesis by fastforce
    qed
    with g None fin show ?thesis by auto
  next
    case (Some nd')
    with g Suc.prems nz have "invoke world fuel (Suc k) nd' s' = Inr final" by simp
    from Suc.IH [OF this] obtain j s where "Suc k \<le> j"
      and "graph_step (world j) Reason s = Inr (None, final)" by blast
    then show ?thesis by (metis Suc_leD)
  qed
qed

lemma invoke_raises:
  "invoke world fuel k nd state = Inl (x, s) \<Longrightarrow>
     (\<exists>j nd'. k \<le> j \<and> graph_step (world j) nd' s = Inl x)
     \<or> (\<exists>j. k \<le> j \<and> x = Exc (recursion_limit_text (recursion_note (world j))))"
proof (induction fuel arbitrary: k nd state)
  case 0
  then show ?case by auto
next
  case (Suc fuel)
  show ?case
  proof (cases "graph_step (world k) nd state")
    case (Inl y)
    with Suc.prems have "x = y" "s = state" by simp_all
    with Inl show ?thesis by auto
  next
    case (Inr p)
    obtain nxt s' where p: "p = (nxt, s')" by (cases p)
    show ?thesis
    proof (cases "fuel = 0")
      case True
      with Inr p Suc.prems show ?thesis by auto
    next
      case False
      with Inr p Suc.prems obtain nd' where "nxt = Some nd'"
        and "invoke world fuel (Suc k) nd' s' = Inl (x, s)"
        by (cases nxt) auto
      from Suc.IH [OF this(2)] show ?thesis by (metis Suc_leD)
    qed
  qed
qed

text \<open>
  C10 (as amended). Let the registry be built and the selected tool be registered. When
  its \<open>execute\<close> call raises an instance of \<open>Exception\<close> (with text \<open>e\<close>), the tool node
  returns an update that holds the error text \<open>Tool execution error: e\<close> and nothing
  else; merged into the state it leaves the history and the observation as they were,
  so the failed call is not appended to the history, and the graph goes on to the
  reasoning node. When the call raises an exception outside \<open>Exception\<close>, the node
  returns no update: the exception leaves the node.
\<close>

theorem tool_error_update:
  assumes "ToolRegistry_init w = Inr ()"
    and "tool_name state = Val name" and "name \<noteq> []"
    and "get_tool name = Some t"
  shows "(call_tool w t (tool_input state) = Inl (Exc e) \<longrightarrow>
            tool_execution_node w state
              = Inr (no_update\<lparr>error := Val (''Tool execution error: '' @ e)\<rparr>)
            \<and> graph_step w Tool state
              = Inr (Some Reason, state\<lparr>error := Val (''Tool execution error: '' @ e)\<rparr>)
            \<and> steps (state\<lparr>error := Val (''Tool execution error: '' @ e)\<rparr>) = steps state
            \<and> observation (state\<lparr>error := Val (''Tool execution error: '' @ e)\<rparr>)
                = observation state)
         \<and> (call_tool w t (tool_input state) = Inl (BaseExc b) \<longrightarrow>
            tool_execution_node w state = Inl (BaseExc b)
            \<and> graph_step w Tool state = Inl (BaseExc b))"
proof (intro conjI impI)
  assume c: "call_tool w t (tool_input state) = Inl (Exc e)"
  show n: "tool_execution_node w state
           = Inr (no_update\<lparr>error := Val (''Tool execution error: '' @ e)\<rparr>)"
    using assms c by (simp add: tool_execution_node_def truthy_Val)
  then show "graph_step w Tool state
           = Inr (Some Reason, state\<lparr>error := Val (''Tool execution error: '' @ e)\<rparr>)"
    by (simp add: graph_step_def apply_error_update)
  show "steps (state\<lparr>error := Val (''Tool execution error: '' @ e)\<rparr>) = steps state"
    by simp
  show "observation (state\<lparr>error := Val (''Tool execution error: '' @ e)\<rparr>) = observation state"
    by simp
next
  assume c: "call_tool w t (tool_input state) = Inl (BaseExc b)"
  show n: "tool_execution_node w state = Inl (BaseExc b)"
    using assms c by (simp add: tool_execution_node_def truthy_Val)
  then show "graph_step w Tool state = Inl (BaseExc b)"
    by (simp add: graph_step_def)
qed

theorem tool_error_update_witness:
  "tool_execution_node quiet_env (selected ''calculator'' NoArgs)
     = Inr (no_update\<lparr>error := Val ''Tool execution error: bad keyword arguments''\<rparr>)
   \<and> steps ((selected ''calculator'' NoArgs)
        \<lparr>error := Val ''Tool execution error: bad keyword arguments''\<rparr>) = Val []
   \<and> tool_execution_node interrupted_env (selected ''calculator'' (Expression ''1+1''))
     = Inl (BaseExc ''KeyboardInterrupt'')"
proof -
  have a: "ToolRegistry_init quiet_env = Inr ()" by code_simp
  have a': "ToolRegistry_init interrupted_env = Inr ()" by code_simp
  have b: "tool_name (selected ''calculator'' x) = Val ''calculator''" for x
    by (simp add: selected_def)
  have c: "''calculator'' \<noteq> []" by simp
  have d: "get_tool ''calculator'' = Some CalculatorTool" by (simp add: get_tool_def)
  have e: "call_tool quiet_env CalculatorTool (tool_input (selected ''calculator'' NoArgs))
             = Inl (Exc ''bad keyword arguments'')"
    by (simp add: selected_def call_tool_def execute_def quiet_env_def)
  have e': "call_tool interrupted_env CalculatorTool
              (tool_input (selected ''calculator'' (Expression ''1+1'')))
             = Inl (BaseExc ''KeyboardInterrupt'')"
    by (simp add: call_tool_def interrupted_env_def)
  have f: "steps (selected ''calculator'' NoArgs) = Val []"
    by (simp add: selected_def initial_state_def)
  note x = tool_error_update [OF a b c d, THEN conjunct1, THEN mp, OF e]
  note y = tool_error_update [OF a' b c d, THEN conjunct2, THEN mp, OF e', THEN conjunct1]
  from x f y show ?thesis by simp
qed

text \<open>
  C10 as stated fails: when an interrupt arrives while the calculator runs, its
  \<open>execute\<close> call raises, and the tool node raises too instead of returning an update
  with an error field.
\<close>

theorem tool_error_counterexample:
  "get_tool ''calculator'' = Some CalculatorTool
   \<and> call_tool interrupted_env CalculatorTool
        (tool_input (selected ''calculator'' (Expression ''1+1'')))
       = Inl (BaseExc ''KeyboardInterrupt'')
   \<and> tool_execution_node interrupted_env (selected ''calculator'' (Expression ''1+1''))
       = Inl (BaseExc ''KeyboardInterrupt'')"
  by (simp add: get_tool_def call_tool_def interrupted_env_def tool_execution_node_def
      selected_def truthy_def ToolRegistry_init_def falsy_var_def quiet_env_def)

text \<open>
  C2 (as amended). When the registry is built and the selected tool name is not
  registered, the tool node returns an update that holds the error text
  \<open>Tool 'name' not found\<close> and nothing else (no observation, the history as it was), and
  the graph goes back to the reasoning node: the run is not over, and while node runs
  are left it continues with the reasoning turn of the next moment. From there the
  session ends only in one of three ways: normally, at a later reasoning turn after
  which no tool is selected; with what a later node raises; or with the recursion error.
\<close>

theorem unknown_tool_back_to_reasoning:
  assumes "ToolRegistry_init (world k) = Inr ()"
    and "tool_name state = Val name" and "name \<noteq> []"
    and "get_tool name = None"
  shows "tool_execution_node (world k) state
           = Inr (no_update\<lparr>error := Val (''Tool '' @ [CHR 0x27] @ name @ [CHR 0x27] @ '' not found'')\<rparr>)
         \<and> graph_step (world k) Tool state
           = Inr (Some Reason,
                  state\<lparr>error := Val (''Tool '' @ [CHR 0x27] @ name @ [CHR 0x27] @ '' not found'')\<rparr>)
         \<and> (fuel \<noteq> 0 \<longrightarrow>
              invoke world (Suc fuel) k Tool state
                = invoke world fuel (Suc k) Reason
                    (state\<lparr>error := Val (''Tool '' @ [CHR 0x27] @ name @ [CHR 0x27] @ '' not found'')\<rparr>))
         \<and> (\<forall>final. invoke world (Suc fuel) k Tool state = Inr final \<longrightarrow>
               (\<exists>j s. k < j \<and> graph_step (world j) Reason s = Inr (None, final)
                  \<and> \<not> truthy (tool_name final)))
         \<and> (\<forall>x s. invoke world (Suc fuel) k Tool state = Inl (x, s) \<longrightarrow>
               (\<exists>j nd. k < j \<and> graph_step (world j) nd s = Inl x)
               \<or> (\<exists>j. k \<le> j \<and> x = Exc (recursion_limit_text (recursion_note (world j)))))"
proof -
  let ?st = "state\<lparr>error := Val (''Tool '' @ [CHR 0x27] @ name @ [CHR 0x27] @ '' not found'')\<rparr>"
  have n: "tool_execution_node (world k) state
           = Inr (no_update\<lparr>error := Val (''Tool '' @ [CHR 0x27] @ name @ [CHR 0x27] @ '' not found'')\<rparr>)"
    using assms by (simp add: tool_execution_node_def truthy_Val)
  then have g: "graph_step (world k) Tool state = Inr (Some Reason, ?st)"
    by (simp add: graph_step_def apply_error_update)
  have step: "fuel \<noteq> 0 \<Longrightarrow>
      invoke world (Suc fuel) k Tool state = invoke world fuel (Suc k) Reason ?st"
    using g by simp
  have last: "fuel = 0 \<Longrightarrow> invoke world (Suc fuel) k Tool state
      = Inl (Exc (recursion_limit_text (recursion_note (world k))), ?st)"
    using g by simp
  have ends: "\<exists>j s. k < j \<and> graph_step (world j) Reason s = Inr (None, final)
                  \<and> \<not> truthy (tool_name final)"
    if h: "invoke world (Suc fuel) k Tool state = Inr final" for final
  proof -
    have nz: "fuel \<noteq> 0"
    proof
      assume "fuel = 0"
      from last [OF this] h show False by (simp del: invoke.simps)
    qed
    with h step have "invoke world fuel (Suc k) Reason ?st = Inr final"
      by (simp del: invoke.simps)
    from invoke_ends [OF this] obtain j s where j: "Suc k \<le> j"
      and e: "graph_step (world j) Reason s = Inr (None, final)" by blast
    from reason_step_end [OF e] j e show ?thesis by (metis Suc_le_lessD)
  qed
  have raises: "(\<exists>j nd. k < j \<and> graph_step (world j) nd s = Inl x)
               \<or> (\<exists>j. k \<le> j \<and> x = Exc (recursion_limit_text (recursion_note (world j))))"
    if h: "invoke world (Suc fuel) k Tool state = Inl (x, s)" for x s
  proof (cases "fuel = 0")
    case True
    from last [OF True] h
    have "x = Exc (recursion_limit_text (recursion_note (world k)))"
      by (simp del: invoke.simps)
    then show ?thesis by auto
  next
    case False
    with h step have "invoke world fuel (Suc k) Reason ?st = Inl (x, s)"
      by (simp del: invoke.simps)
    from invoke_raises [OF this] show ?thesis
      by (metis Suc_leD Suc_le_lessD)
  qed
  from n g step ends raises show ?thesis by blast
qed

theorem unknown_tool_back_to_reasoning_witness:
  "graph_step quiet_env Tool (selected ''lookup'' NoArgs) = Inr (Some Reason, missed)
   \<and> invoke (\<lambda>k. quiet_env) (Suc 3) 1 Tool (selected ''lookup'' NoArgs)
       = invoke (\<lambda>k. quiet_env) 3 (Suc 1) Reason missed"
proof -
  have a: "ToolRegistry_init ((\<lambda>k. quiet_env) (1::nat)) = Inr ()" by code_simp
  have b: "tool_name (selected ''lookup'' NoArgs) = Val ''lookup''"
    by (simp add: selected_def)
  have c: "''lookup'' \<noteq> []" by simp
  have d: "get_tool ''lookup'' = None" by (simp add: get_tool_def)
  have e: "(3::nat) \<noteq> 0" by simp
  note t = unknown_tool_back_to_reasoning [OF a b c d, of 3]
  note x = t [THEN conjunct2, THEN conjunct1]
  note y = t [THEN conjunct2, THEN conjunct2, THEN conjunct1, THEN mp, OF e]
  from x y show ?thesis unfolding missed_def by (intro conjI)
qed

text \<open>
  C2 as stated fails. In this session the first reasoning turn selects \<open>lookup\<close>, which
  is not registered; the run goes on, the second turn selects the calculator, which is
  executed and recorded in the history, and the third turn answers. The error text of
  the miss is still in the result.
\<close>

theorem unknown_tool_counterexample:
  "get_tool ''lookup'' = None
   \<and> map_sum id r_error (run_qa_workflow
        (scripted [Inr ''TOOL: lookup\<newline>INPUT: x'', Inr ''TOOL: calculator\<newline>INPUT: 1+1'',
                   Inr ''FINAL ANSWER: 2'']) ''q'')
     = Inr (Some (''Tool '' @ [CHR 0x27] @ ''lookup'' @ [CHR 0x27] @ '' not found''))
   \<and> map_sum id (\<lambda>r. map (\<lambda>s. (s ''tool'', s ''observation''))
                        (case r_steps r of Some l \<Rightarrow> l | None \<Rightarrow> []))
        (run_qa_workflow
           (scripted [Inr ''TOOL: lookup\<newline>INPUT: x'', Inr ''TOOL: calculator\<newline>INPUT: 1+1'',
                      Inr ''FINAL ANSWER: 2'']) ''q'')
     = Inr [(Some ''calculator'', Some ''Result: 2'')]
   \<and> map_sum id answer (run_qa_workflow
        (scripted [Inr ''TOOL: lookup\<newline>INPUT: x'', Inr ''TOOL: calculator\<newline>INPUT: 1+1'',
                   Inr ''FINAL ANSWER: 2'']) ''q'')
     = Inr (Some ''2'')"
  by code_simp

section \<open>Facts about the top-level runner\<close>

lemma lower_append: "lower (a @ b) = lower a @ lower b"
  by (simp add: lower_def)

lemma sublist_grow_right: "sublist xs ys \<Longrightarrow> sublist xs (ys @ zs)"
  unfolding sublist_def by (metis append.assoc)

lemma recursion_text_matches: "contains ''recursion limit'' (lower (recursion_limit_text nt))"
proof -
  have "contains ''recursion limit''
          (lower ''Recursion limit of 25 reached without hitting a stop condition. '')"
    by code_simp
  then show ?thesis
    unfolding recursion_limit_text_def lower_append contains_sublist
    by (rule sublist_grow_right)
qed

lemma apology_nonempty: "apology \<noteq> []"
  by (simp add: apology_def)

text \<open>A session of 23 node runs ends normally; one of 25 node runs does not.\<close>

lemma eleven_tools_done:
  "map_sum id answer (run_qa_workflow eleven_tools ''q'') = Inr (Some ''done'')"
  by code_simp

lemma twelve_tools_raise:
  "graph_raises twelve_tools ''q'' = Some (Exc (recursion_limit_text []))"
  by code_simp

text \<open>
  C6 (as amended). Whatever the world and the question: if the run of the graph raises an
  instance of \<open>Exception\<close> (with text \<open>e\<close>), \<open>run_qa_workflow\<close> catches it and returns a
  result. Its answer is a text that is not empty: the apology when the lower-cased
  \<open>e\<close> mentions the recursion limit, as the text of the library's recursion error
  does whatever its closing note, and otherwise a sentence that quotes \<open>e\<close>; the error
  field holds \<open>e\<close>. If the run raises an exception outside \<open>Exception\<close>, the runner
  does not catch it: the exception reaches the caller.
\<close>

theorem runner_catches:
  "(graph_raises world q = Some (Exc e) \<longrightarrow>
      (\<exists>r. run_qa_workflow world q = Inr r
         \<and> answer r = Some (if contains ''recursion limit'' (lower e) then apology
                            else ''I encountered an error while processing your request: '' @ e)
         \<and> answer r \<noteq> Some [] \<and> answer r \<noteq> None
         \<and> r_error r = Some e))
   \<and> (graph_raises world q = Some (Exc (recursion_limit_text nt)) \<longrightarrow>
      (\<exists>r. run_qa_workflow world q = Inr r \<and> answer r = Some apology))
   \<and> (graph_raises world q = Some (BaseExc b) \<longrightarrow>
      run_qa_workflow world q = Inl (BaseExc b))"
proof (intro conjI impI)
  assume "graph_raises world q = Some (Exc e)"
  then obtain reached where
    "invoke world recursion_limit 0 Reason (initial_state q) = Inl (Exc e, reached)"
    by (auto simp: graph_raises_def split: sum.splits)
  then show "\<exists>r. run_qa_workflow world q = Inr r
         \<and> answer r = Some (if contains ''recursion limit'' (lower e) then apology
                            else ''I encountered an error while processing your request: '' @ e)
         \<and> answer r \<noteq> Some [] \<and> answer r \<noteq> None
         \<and> r_error r = Some e"
    using apology_nonempty
    by (simp add: run_qa_workflow_def extract_result_def py_get_default_def py_get_def)
next
  assume "graph_raises world q = Some (Exc (recursion_limit_text nt))"
  then obtain reached where
    "invoke world recursion_limit 0 Reason (initial_state q)
       = Inl (Exc (recursion_limit_text nt), reached)"
    by (auto simp: graph_raises_def split: sum.splits)
  then show "\<exists>r. run_qa_workflow world q = Inr r \<and> answer r = Some apology"
    using recursion_text_matches [of nt]
    by (simp add: run_qa_workflow_def extract_result_def py_get_default_def py_get_def)
next
  assume "graph_raises world q = Some (BaseExc b)"
  then obtain reached where
    "invoke world recursion_limit 0 Reason (initial_state q) = Inl (BaseExc b, reached)"
    by (auto simp: graph_raises_def split: sum.splits)
  then show "run_qa_workflow world q = Inl (BaseExc b)"
    by (simp add: run_qa_workflow_def)
qed

theorem runner_catches_witness:
  "map_sum id answer (run_qa_workflow (scripted [Inl (Exc ''overloaded'')]) ''q'')
     = Inr (Some ''I encountered an error while processing your request: overloaded'')
   \<and> map_sum id r_error (run_qa_workflow (scripted [Inl (Exc ''overloaded'')]) ''q'')
     = Inr (Some ''overloaded'')
   \<and> map_sum id answer (run_qa_workflow twelve_tools ''q'') = Inr (Some apology)
   \<and> run_qa_workflow (scripted [Inl (BaseExc ''KeyboardInterrupt'')]) ''q''
     = Inl (BaseExc ''KeyboardInterrupt'')"
proof -
  have g1: "graph_raises (scripted [Inl (Exc ''overloaded'')]) ''q'' = Some (Exc ''overloaded'')"
    by code_simp
  have g2: "graph_raises twelve_tools ''q'' = Some (Exc (recursion_limit_text []))"
    by code_simp
  have g3: "graph_raises (scripted [Inl (BaseExc ''KeyboardInterrupt'')]) ''q''
             = Some (BaseExc ''KeyboardInterrupt'')"
    by code_simp
  have n: "\<not> contains ''recursion limit'' (lower ''overloaded'')" by code_simp
  note a = runner_catches [THEN conjunct1, THEN mp, OF g1]
  note b = runner_catches [THEN conjunct2, THEN conjunct1, THEN mp, OF g2]
  note c = runner_catches [THEN conjunct2, THEN conjunct2, THEN mp, OF g3]
  have "map_sum id answer (run_qa_workflow (scripted [Inl (Exc ''overloaded'')]) ''q'')
     = Inr (Some ''I encountered an error while processing your request: overloaded'')
     \<and> map_sum id r_error (run_qa_workflow (scripted [Inl (Exc ''overloaded'')]) ''q'')
     = Inr (Some ''overloaded'')"
    using a
  proof (elim exE conjE)
    fix r
    assume r: "run_qa_workflow (scripted [Inl (Exc ''overloaded'')]) ''q'' = Inr r"
      and an: "answer r = Some (if contains ''recursion limit'' (lower ''overloaded'') then apology
                 else ''I encountered an error while processing your request: '' @ ''overloaded'')"
      and er: "r_error r = Some ''overloaded''"
    from an n have "answer r = Some ''I encountered an error while processing your request: overloaded''"
      by simp
    with r er show ?thesis by simp
  qed
  moreover have "map_sum id answer (run_qa_workflow twelve_tools ''q'') = Inr (Some apology)"
    using b by (elim exE conjE) simp
  ultimately show ?thesis using c by (intro conjI) simp_all
qed

text \<open>
  C6 as stated fails: when the model call is interrupted, the run raises an exception
  that the handler of the runner does not catch, and the runner raises it to its caller
  instead of returning an answer.
\<close>

theorem runner_catches_counterexample:
  "graph_raises (scripted [Inl (BaseExc ''KeyboardInterrupt'')]) ''q''
     = Some (BaseExc ''KeyboardInterrupt'')
   \<and> map_sum id answer (run_qa_workflow (scripted [Inl (BaseExc ''KeyboardInterrupt'')]) ''q'')
     = Inl (BaseExc ''KeyboardInterrupt'')"
  by code_simp

section \<open>Facts about the date tool\<close>

lemma delta_naive:
  "tzinfo a = None \<Longrightarrow> tzinfo b = None \<Longrightarrow>
   delta_days (midnight a) (midnight b) = Inr (ordinal a - ordinal b)"
  by (simp add: delta_days_def midnight_def)

lemma delta_mixed:
  "tzinfo a \<noteq> None \<Longrightarrow> tzinfo b = None \<Longrightarrow>
   delta_days (midnight a) (midnight b)
     = Inl ''can't subtract offset-naive and offset-aware datetimes''"
  by (auto simp: delta_days_def midnight_def)

text \<open>
  C8 (as amended). Let the clock be naive, as \<open>datetime.now()\<close> is, and let the target
  text parse. If the parsed value is naive, the branch follows the sign of the
  difference of the two days, the times of day set aside: the same day gives the
  \<open>is today\<close> text, a later day the \<open>Days until\<close> text with the number of days, an
  earlier day the \<open>Days since\<close> text with the positive number of days \<open>ago\<close>. If the
  parsed value is aware, the tool returns the \<open>Error parsing date\<close> text, whatever the
  day.
\<close>

theorem days_branch_matches_sign:
  assumes "tzinfo (now w) = None" and "parse_date w s = Inr parsed"
  shows "(tzinfo parsed = None \<and> ordinal parsed = ordinal (now w) \<longrightarrow>
            DateCalculatorTool_execute w days (Some s)
              = ''The target date '' @ strftime w ''%B %d, %Y'' (midnight parsed) @ '' is today!'')
       \<and> (tzinfo parsed = None \<and> ordinal (now w) < ordinal parsed \<longrightarrow>
            DateCalculatorTool_execute w days (Some s)
              = ''Days until '' @ strftime w ''%B %d, %Y'' (midnight parsed) @ '':\<newline>''
                @ ''- Today: '' @ strftime w ''%A, %B %d, %Y'' (midnight (now w)) @ ''\<newline>''
                @ ''- Target: '' @ strftime w ''%A, %B %d, %Y'' (midnight parsed) @ ''\<newline>''
                @ ''- Days until: '' @ str_int (ordinal parsed - ordinal (now w)) @ '' days'')
       \<and> (tzinfo parsed = None \<and> ordinal parsed < ordinal (now w) \<longrightarrow>
            DateCalculatorTool_execute w days (Some s)
              = ''Days since '' @ strftime w ''%B %d, %Y'' (midnight parsed) @ '':\<newline>''
                @ ''- Today: '' @ strftime w ''%A, %B %d, %Y'' (midnight (now w)) @ ''\<newline>''
                @ ''- Target: '' @ strftime w ''%A, %B %d, %Y'' (midnight parsed) @ ''\<newline>''
                @ ''- Days since: '' @ str_int (ordinal (now w) - ordinal parsed) @ '' days ago'')
       \<and> (tzinfo parsed \<noteq> None \<longrightarrow>
            DateCalculatorTool_execute w days (Some s)
              = parse_error_text s ''can't subtract offset-naive and offset-aware datetimes'')"
proof (intro conjI impI)
  assume h: "tzinfo parsed = None \<and> ordinal parsed = ordinal (now w)"
  then have d: "delta_days (midnight parsed) (midnight (now w)) = Inr (ordinal parsed - ordinal (now w))"
    using assms(1) by (simp add: delta_naive)
  show "DateCalculatorTool_execute w days (Some s)
              = ''The target date '' @ strftime w ''%B %d, %Y'' (midnight parsed) @ '' is today!''"
    using assms(2) d h by (simp add: DateCalculatorTool_execute_def Let_def)
next
  assume h: "tzinfo parsed = None \<and> ordinal (now w) < ordinal parsed"
  then have d: "delta_days (midnight parsed) (midnight (now w)) = Inr (ordinal parsed - ordinal (now w))"
    using assms(1) by (simp add: delta_naive)
  show "DateCalculatorTool_execute w days (Some s)
              = ''Days until '' @ strftime w ''%B %d, %Y'' (midnight parsed) @ '':\<newline>''
                @ ''- Today: '' @ strftime w ''%A, %B %d, %Y'' (midnight (now w)) @ ''\<newline>''
                @ ''- Target: '' @ strftime w ''%A, %B %d, %Y'' (midnight parsed) @ ''\<newline>''
                @ ''- Days until: '' @ str_int (ordinal parsed - ordinal (now w)) @ '' days''"
    using assms(2) d h by (simp add: DateCalculatorTool_execute_def Let_def)
next
  assume h: "tzinfo parsed = None \<and> ordinal parsed < ordinal (now w)"
  then have d: "delta_days (midnight parsed) (midnight (now w)) = Inr (ordinal parsed - ordinal (now w))"
    using assms(1) by (simp add: delta_naive)
  show "DateCalculatorTool_execute w days (Some s)
              = ''Days since '' @ strftime w ''%B %d, %Y'' (midnight parsed) @ '':\<newline>''
                @ ''- Today: '' @ strftime w ''%A, %B %d, %Y'' (midnight (now w)) @ ''\<newline>''
                @ ''- Target: '' @ strftime w ''%A, %B %d, %Y'' (midnight parsed) @ ''\<newline>''
                @ ''- Days since: '' @ str_int (ordinal (now w) - ordinal parsed) @ '' days ago''"
    using assms(2) d h by (simp add: DateCalculatorTool_execute_def Let_def)
next
  assume h: "tzinfo parsed \<noteq> None"
  then have d: "delta_days (midnight parsed) (midnight (now w))
                  = Inl ''can't subtract offset-naive and offset-aware datetimes''"
    using assms(1) by (simp add: delta_mixed)
  show "DateCalculatorTool_execute w days (Some s)
              = parse_error_text s ''can't subtract offset-naive and offset-aware datetimes''"
    using assms(2) d by (simp add: DateCalculatorTool_execute_def Let_def)
qed

theorem days_branch_matches_sign_witness:
  "DateCalculatorTool_execute future_env None (Some ''May 11'')
     = ''Days until %B %d, %Y:\<newline>- Today: %A, %B %d, %Y\<newline>- Target: %A, %B %d, %Y\<newline>- Days until: 10 days''
   \<and> DateCalculatorTool_execute aware_env None (Some ''2030-01-01T09:00:00Z'')
     = parse_error_text ''2030-01-01T09:00:00Z''
         ''can't subtract offset-naive and offset-aware datetimes''"
proof -
  have a: "tzinfo (now future_env) = None"
    by (simp add: future_env_def quiet_env_def)
  have b: "parse_date future_env ''May 11''
             = Inr \<lparr>ordinal = 739010, micros = 32400000000, tzinfo = None\<rparr>"
    by (simp add: future_env_def)
  have c: "tzinfo \<lparr>ordinal = 739010, micros = 32400000000, tzinfo = None\<rparr> = None
           \<and> ordinal (now future_env) < ordinal \<lparr>ordinal = 739010, micros = 32400000000, tzinfo = None\<rparr>"
    by (simp add: future_env_def quiet_env_def)
  have d: "ordinal (now future_env) = 739000"
    by (simp add: future_env_def quiet_env_def)
  have e: "str_int 10 = ''10''"
    by code_simp
  have f: "strftime future_env = (\<lambda>f d. f)"
    by (simp add: future_env_def quiet_env_def)
  have a': "tzinfo (now aware_env) = None"
    by (simp add: aware_env_def quiet_env_def)
  have b': "parse_date aware_env ''2030-01-01T09:00:00Z''
             = Inr \<lparr>ordinal = 739010, micros = 32400000000, tzinfo = Some 0\<rparr>"
    by (simp add: aware_env_def)
  have c': "tzinfo \<lparr>ordinal = 739010, micros = 32400000000, tzinfo = Some 0\<rparr> \<noteq> None"
    by simp
  note x = days_branch_matches_sign [OF a b, of None, THEN conjunct2, THEN conjunct1, THEN mp, OF c]
  note y = days_branch_matches_sign [OF a' b', of None, THEN conjunct2, THEN conjunct2,
      THEN conjunct2, THEN mp, OF c']
  from x have "DateCalculatorTool_execute future_env None (Some ''May 11'')
     = ''Days until %B %d, %Y:\<newline>- Today: %A, %B %d, %Y\<newline>- Target: %A, %B %d, %Y\<newline>- Days until: 10 days''"
    using d e f by simp
  with y show ?thesis by (intro conjI)
qed

text \<open>
  C8 as stated fails: a target text with a time zone parses to an aware value of a later
  day, and the tool returns the parse-error text, which is none of the three branches,
  because an aware value and the naive clock cannot be subtracted.
\<close>

theorem days_branch_counterexample:
  "parse_date aware_env ''2030-01-01T09:00:00Z''
     = Inr \<lparr>ordinal = 739010, micros = 32400000000, tzinfo = Some 0\<rparr>
   \<and> ordinal (now aware_env) < 739010
   \<and> DateCalculatorTool_execute aware_env None (Some ''2030-01-01T09:00:00Z'')
       = parse_error_text ''2030-01-01T09:00:00Z''
           ''can't subtract offset-naive and offset-aware datetimes''
   \<and> \<not> prefix ''Days until'' (DateCalculatorTool_execute aware_env None (Some ''2030-01-01T09:00:00Z''))
   \<and> \<not> prefix ''Days since'' (DateCalculatorTool_execute aware_env None (Some ''2030-01-01T09:00:00Z''))
   \<and> \<not> prefix ''The target date'' (DateCalculatorTool_execute aware_env None (Some ''2030-01-01T09:00:00Z''))"
  by code_simp

end
